theory Spec2Isabelle
  imports Main
begin

section \<open>Text: the string operations of the host language that \<open>run\<close> uses\<close>

text \<open>
  Command text and user input are \<open>string\<close>s. A character is a code point below 256, so
  the two line separators U+2028 and U+2029 and the white space beyond U+00A0 that a
  Python 3 \<open>str\<close> may also hold are outside the model.
\<close>

abbreviation nl :: string where
  "nl \<equiv> [CHR 0x0A]"

text \<open>The line boundaries of \<open>str.splitlines\<close>: LF, VT, FF, CR, FS, GS, RS and NEL.\<close>

definition is_line_boundary :: "char \<Rightarrow> bool" where
  "is_line_boundary c \<longleftrightarrow>
     c \<in> set [CHR 0x0A, CHR 0x0B, CHR 0x0C, CHR 0x0D, CHR 0x1C, CHR 0x1D, CHR 0x1E, CHR 0x85]"

text \<open>
  \<open>str.splitlines()\<close>: the text is cut at every line boundary, CR LF counting as one; the
  boundaries are dropped and a boundary at the very end opens no further line. The first
  argument is the line read so far.
\<close>

fun splitlines_from :: "string \<Rightarrow> string \<Rightarrow> string list" where
  "splitlines_from cur [] = (if cur = [] then [] else [cur])"
| "splitlines_from cur [c] =
     (if is_line_boundary c then [cur] else [cur @ [c]])"
| "splitlines_from cur (c # d # cs) =
     (if c = CHR 0x0D \<and> d = CHR 0x0A then cur # splitlines_from [] cs
      else if is_line_boundary c then cur # splitlines_from [] (d # cs)
      else splitlines_from (cur @ [c]) (d # cs))"

definition splitlines :: "string \<Rightarrow> string list" where
  "splitlines text = splitlines_from [] text"

text \<open>The characters \<open>str.isspace\<close> accepts, and \<open>str.strip()\<close>, which removes them at both ends.\<close>

definition isspace :: "char \<Rightarrow> bool" where
  "isspace c \<longleftrightarrow>
     c \<in> set [CHR 0x09, CHR 0x0A, CHR 0x0B, CHR 0x0C, CHR 0x0D, CHR 0x1C, CHR 0x1D, CHR 0x1E,
              CHR 0x1F, CHR 0x20, CHR 0x85, CHR 0xA0]"

definition strip :: "string \<Rightarrow> string" where
  "strip text = rev (dropWhile isspace (rev (dropWhile isspace text)))"


section \<open>The collaborators: engine, poller, user and file system\<close>

text \<open>
  Everything \<open>run\<close> does to its collaborators is recorded, in order, as an event.
\<close>

datatype event =
    ClearOutputBuffer
  | Execute string bool
  | GetOutput
  | SetBreak
  | Print string
  | PrintOutput string bool
  | DisplayLn string
  | UserInput string
  | GetTempFile string
  | WriteFile string string
  | PollerStart nat "string option" "bool option" "nat option"
  | QueuePut int
  | PollerJoin
  | PollerDone
  | CompileCommand string
  | GrDisplay

datatype error =
    SystemError string
  | TypeError string
  | EOFError
  | KeyboardInterrupt

text \<open>The three outcomes of \<open>codeop.compile_command\<close>: a code object, \<open>None\<close> (the source is
  incomplete), or one of OverflowError, SyntaxError, ValueError raised.\<close>

datatype compiled = Code | Incomplete | ParseError

text \<open>
  The state that the calls thread: the events so far, the engine's output buffer (a queue
  of chunks), the number of execute calls and of temporary files so far, and the two
  module globals \<open>rc2\<close> and \<open>gr_display_func\<close> (whether the display hook has been imported).
\<close>

record state =
  trace :: "event list"
  outbuf :: "string list"
  nexec :: nat
  ntemp :: nat
  rc2 :: int
  gr_display_func :: bool

text \<open>
  What the source cannot decide is a parameter: the configuration (\<open>streamout\<close>,
  \<open>grshow\<close>, \<open>stipython\<close>); the engine's reply to its n-th execute call, a return code and
  the output chunks it buffers; whether the user interrupts that call (a
  KeyboardInterrupt raised during an execute call: the try block of a worker handles it,
  while the graph toggles of \<open>run\<close> have no handler and let it leave \<open>run\<close>);
  whether \<open>outputter.join()\<close> after that call raises, and with what message;
  the names of the temporary files; \<open>codeop.compile_command\<close>; and
  \<open>stout.output_get_interactive_result\<close>. \<open>config.get_encode_str\<close> is taken as the identity
  and \<open>config.check_initialized\<close> as passing.
\<close>

record env =
  streamout :: bool
  grshow :: bool
  stipython :: int
  engine :: "nat \<Rightarrow> string \<Rightarrow> int \<times> string list"
  interrupt :: "nat \<Rightarrow> bool"
  outputter_join :: "nat \<Rightarrow> string option"
  tempfile :: "nat \<Rightarrow> string"
  compile_command :: "string \<Rightarrow> compiled"
  output_get_interactive_result :: "string \<Rightarrow> string option \<Rightarrow> bool \<Rightarrow> nat \<Rightarrow> string"

definition emit :: "event \<Rightarrow> state \<Rightarrow> state" where
  "emit e s = s\<lparr>trace := trace s @ [e]\<rparr>"

definition StataSO_ClearOutputBuffer :: "state \<Rightarrow> state" where
  "StataSO_ClearOutputBuffer s = emit ClearOutputBuffer (s\<lparr>outbuf := []\<rparr>)"

text \<open>\<open>StataSO_Execute\<close>, when it returns: the engine's chunks are buffered and the return
  code handed back.\<close>

definition StataSO_Execute :: "env \<Rightarrow> string \<Rightarrow> bool \<Rightarrow> state \<Rightarrow> int \<times> state" where
  "StataSO_Execute E cmd echo s =
     (let (rc, chunks) = engine E (nexec s) cmd
      in (rc, emit (Execute cmd echo) (s\<lparr>outbuf := outbuf s @ chunks, nexec := Suc (nexec s)\<rparr>)))"

text \<open>Modelled from the spec: \<open>config.get_output\<close> is not among the sources; as
  \<open>pollOutputChunk\<close> it returns the next buffered chunk, or the empty string when nothing
  is buffered.\<close>

definition get_output :: "state \<Rightarrow> string \<times> state" where
  "get_output s =
     (case outbuf s of
        [] \<Rightarrow> ([], emit GetOutput s)
      | c # cs \<Rightarrow> (c, emit GetOutput (s\<lparr>outbuf := cs\<rparr>)))"

definition print_no_streaming_output :: "string \<Rightarrow> bool \<Rightarrow> state \<Rightarrow> state" where
  "print_no_streaming_output output newline s = emit (PrintOutput output newline) s"

definition SetBreak_notice :: "state \<Rightarrow> state" where
  "SetBreak_notice s = emit (Print (nl @ ''KeyboardInterrupt: --break--'')) (emit SetBreak s)"


section \<open>The workers\<close>

text \<open>The drain loop of \<open>_stata_wrk1\<close> (\<open>while len(output) != 0 ... else ...\<close>).\<close>

function wrk1_drain :: "int \<Rightarrow> string \<Rightarrow> state \<Rightarrow> error option \<times> state" where
  "wrk1_drain rc1 output s =
     (if output \<noteq> [] then
        (if rc1 \<noteq> 0 then (Some (SystemError output), s)
         else (let s1 = print_no_streaming_output output False s;
                   (output', s2) = get_output s1
               in wrk1_drain rc1 output' s2))
      else
        (if rc1 \<noteq> 0 then (Some (SystemError ''failed to execute the specified command''), s)
         else (None, s)))"
  by pat_completeness auto
termination
  by (relation "measure (\<lambda>(rc1, output, s). length (outbuf s) + (if output \<noteq> [] then 1 else 0))")
     (auto simp: get_output_def print_no_streaming_output_def emit_def split: list.splits)

definition stata_wrk1 :: "env \<Rightarrow> string \<Rightarrow> bool \<Rightarrow> state \<Rightarrow> error option \<times> state" where
  "stata_wrk1 E cmd echo s =
     (if streamout E then
        (let s1 = emit (PollerStart 1 None None None) s in
         if interrupt E (nexec s1) then
           (let (rc1, s2) = StataSO_Execute E cmd echo s1
            in (None, SetBreak_notice (emit PollerDone s2)))
         else
           (let (rc1, s2) = StataSO_Execute E cmd echo s1;
                s3 = emit (QueuePut rc1) s2;
                s4 = emit PollerJoin s3
            in case outputter_join E (nexec s4) of
                 Some msg \<Rightarrow> (Some (SystemError msg), s4)
               | None \<Rightarrow> (None, emit PollerDone s4)))
      else
        (if interrupt E (nexec s) then
           (let (rc1, s1) = StataSO_Execute E cmd echo s
            in (None, SetBreak_notice s1))
         else
           (let (rc1, s1) = StataSO_Execute E cmd echo s;
                (output, s2) = get_output s1
            in wrk1_drain rc1 output s2)))"

text \<open>The drain loop of \<open>_stata_wrk2\<close> on return code 0.\<close>

function wrk2_drain ::
  "env \<Rightarrow> string option \<Rightarrow> bool \<Rightarrow> nat \<Rightarrow> string \<Rightarrow> state \<Rightarrow> state" where
  "wrk2_drain E real_cmd colon mode output s =
     (if output \<noteq> [] then
        (let (output_tmp, s1) = get_output s in
         if output_tmp = [] then
           (if mode \<noteq> 1 then
              print_no_streaming_output
                (output_get_interactive_result E output real_cmd colon mode) False s1
            else print_no_streaming_output output True s1)
         else
           (let output1 = (if mode \<noteq> 1
                           then output_get_interactive_result E output real_cmd colon mode
                           else output);
                s2 = print_no_streaming_output output1 False s1
            in wrk2_drain E real_cmd colon mode output_tmp s2))
      else s)"
  by pat_completeness auto
termination
  by (relation "measure (\<lambda>(E, real_cmd, colon, mode, output, s). length (outbuf s))")
     (auto simp: get_output_def print_no_streaming_output_def emit_def split: list.splits)

definition stata_wrk2 ::
  "env \<Rightarrow> string \<Rightarrow> string option \<Rightarrow> bool \<Rightarrow> nat \<Rightarrow> state \<Rightarrow> error option \<times> state" where
  "stata_wrk2 E cmd real_cmd colon mode s =
     (if streamout E then
        (let s1 = emit (PollerStart 2 real_cmd (Some colon) (Some mode)) s in
         if interrupt E (nexec s1) then
           (let (rc, s2) = StataSO_Execute E cmd False s1
            in (None, SetBreak_notice (emit PollerDone s2)))
         else
           (let (rc, s2) = StataSO_Execute E cmd False s1;
                s3 = emit (QueuePut rc) (s2\<lparr>rc2 := rc\<rparr>);
                s4 = emit PollerJoin s3
            in case outputter_join E (nexec s4) of
                 Some msg \<Rightarrow> (Some (SystemError msg), s4)
               | None \<Rightarrow> (None, emit PollerDone s4)))
      else
        (if interrupt E (nexec s) then
           (let (rc, s1) = StataSO_Execute E cmd False s
            in (None, SetBreak_notice s1))
         else
           (let (rc, s1) = StataSO_Execute E cmd False s;
                (output, s2) = get_output (s1\<lparr>rc2 := rc\<rparr>)
            in if rc \<noteq> 0 then
                 (if rc \<noteq> 3000 then
                    (if mode \<noteq> 1 then
                       (None, print_no_streaming_output
                                (output_get_interactive_result E output real_cmd colon mode) False s2)
                     else (Some (SystemError output), s2))
                  else (None, s2))
               else (None, wrk2_drain E real_cmd colon mode output s2))))"

section \<open>The nested sessions\<close>

definition getTempFile :: "env \<Rightarrow> state \<Rightarrow> string \<times> state" where
  "getTempFile E s =
     (let tmpf = tempfile E (ntemp s)
      in (tmpf, emit (GetTempFile tmpf) (s\<lparr>ntemp := Suc (ntemp s)\<rparr>)))"

text \<open>The three \<open>f.write\<close> calls of a session unit: header line, accumulated source, \<open>end\<close>.\<close>

definition write_unit :: "string \<Rightarrow> string \<Rightarrow> string \<Rightarrow> state \<Rightarrow> state" where
  "write_unit tmpf input_cmd incmds1 s = emit (WriteFile tmpf (input_cmd @ nl @ incmds1 @ ''end'')) s"

text \<open>
  Staging and running one unit of a session, as both branches do it: a temporary file is
  obtained, written, and included through \<open>_stata_wrk2\<close> in the session's mode, with
  the echo transcript \<open>incmds2\<close> as \<open>real_cmd\<close>.
\<close>

definition staged_unit ::
  "env \<Rightarrow> bool \<Rightarrow> bool \<Rightarrow> nat \<Rightarrow> string \<Rightarrow> string \<Rightarrow> string \<Rightarrow> state
   \<Rightarrow> error option \<times> state" where
  "staged_unit E quietly has_colon mode input_cmd incmds1 incmds2 s =
     (let (tmpf, s1) = getTempFile E s;
          s2 = write_unit tmpf input_cmd incmds1 s1
      in if quietly then stata_wrk2 E (''qui include '' @ tmpf) (Some incmds2) has_colon mode s2
         else stata_wrk2 E (''include '' @ tmpf) (Some incmds2) has_colon mode s2)"

text \<open>
  The \<open>while incmd != "end"\<close> loop of the \<open>mata\<close> branch. The lines the user will type are
  the list \<open>ins\<close>; \<open>_get_user_input\<close> takes the next one and raises EOFError when there is
  none. The loop's \<open>else\<close> prints the closing separator; \<open>break\<close> leaves without it.
\<close>

fun mata_loop ::
  "env \<Rightarrow> bool \<Rightarrow> bool \<Rightarrow> string \<Rightarrow> string \<Rightarrow> string \<Rightarrow> string \<Rightarrow> string \<Rightarrow> string list \<Rightarrow> state
   \<Rightarrow> error option \<times> state" where
  "mata_loop E quietly has_colon input_cmd incmd incmds1 incmds2 inprompt ins s =
     (if incmd = ''end'' then (None, emit (DisplayLn ''{hline}'') s)
      else
        (let incmd1 = incmd @ nl;
             incmds1' = incmds1 @ incmd1;
             incmds2' = incmds2 @ (inprompt @ incmd1);
             (r, s3) = staged_unit E quietly has_colon 2 input_cmd incmds1' incmds2' s
         in case r of
              Some e \<Rightarrow> (Some e, s3)
            | None \<Rightarrow>
                if rc2 s3 \<noteq> 0 then
                  (if rc2 s3 \<noteq> 3000 then (None, s3)
                   else
                     (case ins of
                        [] \<Rightarrow> (Some EOFError, emit (UserInput ''> '') s3)
                      | i # ins' \<Rightarrow>
                          mata_loop E quietly has_colon input_cmd (strip i) incmds1' incmds2' ''> ''
                            ins' (emit (UserInput ''> '') s3)))
                else
                  (case ins of
                     [] \<Rightarrow> (Some EOFError, emit (UserInput '': '') s3)
                   | i # ins' \<Rightarrow>
                       mata_loop E quietly has_colon input_cmd (strip i) [] [] '': ''
                         ins' (emit (UserInput '': '') s3))))"

definition mata_session ::
  "env \<Rightarrow> bool \<Rightarrow> string \<Rightarrow> string list \<Rightarrow> state \<Rightarrow> error option \<times> state" where
  "mata_session E quietly input_cmd ins s =
     (let has_colon = (input_cmd = ''mata:'');
          s1 = emit (Print (''. '' @ input_cmd)) s;
          s2 = emit (DisplayLn ''{hline 49} mata (type {cmd:end} to exit) {hline}'') s1;
          s3 = emit (UserInput '': '') s2
      in case ins of
           [] \<Rightarrow> (Some EOFError, s3)
         | i # ins' \<Rightarrow> mata_loop E quietly has_colon input_cmd (strip i) [] [] '': '' ins' s3)"

text \<open>
  The completeness check of the \<open>python\<close> branch, on the prompt-prefixed line \<open>incmd\<close>:
  the result \<open>res\<close> (\<open>True\<close> when it is \<open>None\<close>) and the two accumulators, which get their
  newline only when \<open>compile_command\<close> returns.
\<close>

definition check_unit ::
  "env \<Rightarrow> string \<Rightarrow> string \<Rightarrow> string \<Rightarrow> state \<Rightarrow> (bool \<times> string \<times> string) \<times> state" where
  "check_unit E incmd incmds1 incmds2 s =
     (if take 6 incmd \<noteq> ''stata:'' then
        (case compile_command E incmds1 of
           Code \<Rightarrow> ((False, incmds1 @ nl, incmds2 @ nl), emit (CompileCommand incmds1) s)
         | Incomplete \<Rightarrow> ((True, incmds1 @ nl, incmds2 @ nl), emit (CompileCommand incmds1) s)
         | ParseError \<Rightarrow> ((False, incmds1, incmds2), emit (CompileCommand incmds1) s))
      else ((False, incmds1, incmds2), s))"

text \<open>The \<open>while incmd != "end"\<close> loop of the \<open>python\<close> branch.\<close>

fun python_loop ::
  "env \<Rightarrow> bool \<Rightarrow> bool \<Rightarrow> string \<Rightarrow> string \<Rightarrow> string \<Rightarrow> string \<Rightarrow> string \<Rightarrow> string list \<Rightarrow> state
   \<Rightarrow> error option \<times> state" where
  "python_loop E quietly has_colon input_cmd incmd incmds1 incmds2 inprompt ins s =
     (if incmd = ''end'' then (None, emit (DisplayLn ''{hline}'') s)
      else
        (let ((res_is_None, incmds1', incmds2'), s1) =
               check_unit E (inprompt @ incmd) (incmds1 @ incmd) (incmds2 @ (inprompt @ incmd)) s
         in if res_is_None then
              (case ins of
                 [] \<Rightarrow> (Some EOFError, emit (UserInput ''... '') s1)
               | i # ins' \<Rightarrow>
                   python_loop E quietly has_colon input_cmd i incmds1' incmds2' ''... ''
                     ins' (emit (UserInput ''... '') s1))
            else
              (let (r, s4) = staged_unit E quietly has_colon 3 input_cmd incmds1' incmds2' s1
               in case r of
                    Some e \<Rightarrow> (Some e, s4)
                  | None \<Rightarrow>
                      if rc2 s4 \<noteq> 0 then (None, s4)
                      else
                        (case ins of
                           [] \<Rightarrow> (Some EOFError, emit (UserInput ''>>> '') s4)
                         | i # ins' \<Rightarrow>
                             python_loop E quietly has_colon input_cmd i [] [] ''>>> ''
                               ins' (emit (UserInput ''>>> '') s4)))))"

definition python_session ::
  "env \<Rightarrow> bool \<Rightarrow> string \<Rightarrow> string list \<Rightarrow> state \<Rightarrow> error option \<times> state" where
  "python_session E quietly input_cmd ins s =
     (let has_colon = (input_cmd = ''python:'');
          s1 = emit (Print (''. '' @ input_cmd)) s;
          s2 = emit (DisplayLn ''{hline 47} python (type {cmd:end} to exit) {hline}'') s1;
          s3 = emit (UserInput ''>>> '') s2
      in case ins of
           [] \<Rightarrow> (Some EOFError, s3)
         | i # ins' \<Rightarrow> python_loop E quietly has_colon input_cmd i [] [] ''>>> '' ins' s3)"


section \<open>The dispatcher\<close>

text \<open>The \<open>inline\<close> argument: \<open>None\<close>, a boolean, or any other object.\<close>

datatype inline_arg = InlineNone | InlineBool bool | InlineOther

definition resolve_inline :: "env \<Rightarrow> inline_arg \<Rightarrow> error + bool" where
  "resolve_inline E inline =
     (case inline of
        InlineNone \<Rightarrow> Inr (grshow E)
      | InlineBool b \<Rightarrow> Inr b
      | InlineOther \<Rightarrow> Inl (TypeError ''inline must be a boolean value''))"

text \<open>The graph toggles: an execute call whose return code \<open>run\<close> drops. Nothing catches
  a KeyboardInterrupt raised during the call.\<close>

definition gr_list :: "env \<Rightarrow> string \<Rightarrow> state \<Rightarrow> error option \<times> state" where
  "gr_list E onoff s =
     (let (rc, s1) = StataSO_Execute E (''qui _gr_list '' @ onoff) False s
      in if interrupt E (nexec s) then (Some KeyboardInterrupt, s1) else (None, s1))"

text \<open>The end of \<open>run\<close>, reached unless an error was raised or no line was given: with
  \<open>inline\<close>, display the graphs (importing the hook on first use) and switch the capture off.\<close>

definition run_finish :: "env \<Rightarrow> bool \<Rightarrow> error option \<times> state \<Rightarrow> error option \<times> state" where
  "run_finish E inline rs =
     (case fst rs of
        Some e \<Rightarrow> (Some e, snd rs)
      | None \<Rightarrow>
          if inline then
            (let s1 = (if stipython E \<ge> 3
                       then emit GrDisplay ((snd rs)\<lparr>gr_display_func := True\<rparr>)
                       else snd rs)
             in gr_list E ''off'' s1)
          else (None, snd rs))"

definition run ::
  "env \<Rightarrow> string \<Rightarrow> bool \<Rightarrow> bool \<Rightarrow> inline_arg \<Rightarrow> string list \<Rightarrow> state \<Rightarrow> error option \<times> state" where
  "run E cmd quietly echo inline ins s =
     (case resolve_inline E inline of
        Inl e \<Rightarrow> (Some e, s)
      | Inr inl \<Rightarrow>
          (let s1 = StataSO_ClearOutputBuffer s
           in case splitlines cmd of
                [] \<Rightarrow> (None, s1)
              | [c] \<Rightarrow>
                  (case (if inl then gr_list E ''on'' s1 else (None, s1)) of
                     (Some e, s2) \<Rightarrow> (Some e, s2)
                   | (None, s2) \<Rightarrow>
                       (let input_cmd = strip c
                        in run_finish E inl
                             (if input_cmd = ''mata'' \<or> input_cmd = ''mata:''
                              then mata_session E quietly input_cmd ins s2
                              else if input_cmd = ''python'' \<or> input_cmd = ''python:''
                              then python_session E quietly input_cmd ins s2
                              else if quietly then stata_wrk1 E (''qui '' @ c) echo s2
                              else stata_wrk1 E c echo s2)))
              | c # d # cs \<Rightarrow>
                  (case (if inl then gr_list E ''on'' s1 else (None, s1)) of
                     (Some e, s2) \<Rightarrow> (Some e, s2)
                   | (None, s2) \<Rightarrow>
                       (let (tmpf, s3) = getTempFile E s2;
                            s4 = emit (WriteFile tmpf cmd) s3
                        in run_finish E inl
                             (if quietly then stata_wrk2 E (''qui include '' @ tmpf) None False 1 s4
                              else stata_wrk2 E (''include '' @ tmpf) None False 1 s4)))))"


section \<open>Reading a trace\<close>

fun is_Execute :: "event \<Rightarrow> bool" where
  "is_Execute (Execute c e) = True"
| "is_Execute _ = False"

fun is_WriteFile :: "event \<Rightarrow> bool" where
  "is_WriteFile (WriteFile p c) = True"
| "is_WriteFile _ = False"

fun is_GetTempFile :: "event \<Rightarrow> bool" where
  "is_GetTempFile (GetTempFile p) = True"
| "is_GetTempFile _ = False"

text \<open>What a worker does besides starting the poller and executing: it polls and prints
  output, feeds and stops the poller, and handles an interrupt.\<close>

fun passive_event :: "event \<Rightarrow> bool" where
  "passive_event GetOutput = True"
| "passive_event (PrintOutput out n) = True"
| "passive_event (QueuePut rc) = True"
| "passive_event PollerJoin = True"
| "passive_event PollerDone = True"
| "passive_event SetBreak = True"
| "passive_event (Print t) = True"
| "passive_event _ = False"

text \<open>Whether a call raised SystemError.\<close>

fun is_SystemError :: "error option \<Rightarrow> bool" where
  "is_SystemError (Some (SystemError m)) = True"
| "is_SystemError _ = False"

text \<open>A fresh process, and an engine that accepts everything silently, with streaming off.\<close>

definition s0 :: state where
  "s0 = \<lparr>trace = [], outbuf = [], nexec = 0, ntemp = 0, rc2 = 0, gr_display_func = False\<rparr>"

definition E0 :: env where
  "E0 = \<lparr>streamout = False, grshow = False, stipython = 0,
          engine = (\<lambda>n c. (0, [])), interrupt = (\<lambda>n. False), outputter_join = (\<lambda>n. None),
          tempfile = (\<lambda>n. ''tmp''), compile_command = (\<lambda>src. Code),
          output_get_interactive_result = (\<lambda>out real_cmd colon mode. out)\<rparr>"

declare wrk1_drain.simps [simp del]
declare wrk2_drain.simps [simp del]
declare mata_loop.simps [simp del]
declare python_loop.simps [simp del]


section \<open>What the workers leave in the trace\<close>

lemma emit_fields [simp]:
  "trace (emit e s) = trace s @ [e]"
  "outbuf (emit e s) = outbuf s"
  "nexec (emit e s) = nexec s"
  "ntemp (emit e s) = ntemp s"
  "rc2 (emit e s) = rc2 s"
  "gr_display_func (emit e s) = gr_display_func s"
  by (simp_all add: emit_def)

lemma passive_no_Execute: "list_all passive_event evs \<Longrightarrow> filter is_Execute evs = []"
  by (induction evs) (auto elim: passive_event.elims)

lemma passive_no_WriteFile: "list_all passive_event evs \<Longrightarrow> filter is_WriteFile evs = []"
  by (induction evs) (auto elim: passive_event.elims)

lemma passive_no_GetTempFile: "list_all passive_event evs \<Longrightarrow> filter is_GetTempFile evs = []"
  by (induction evs) (auto elim: passive_event.elims)

lemma get_output_trace:
  "trace (snd (get_output s)) = trace s @ [GetOutput]"
  by (simp add: get_output_def split: list.splits)

lemma wrk1_drain_trace:
  "\<exists>rest. trace (snd (wrk1_drain rc1 out s)) = trace s @ rest \<and> list_all passive_event rest"
proof (induction rc1 out s rule: wrk1_drain.induct)
  case (1 rc1 out s)
  show ?case
  proof (cases "out \<noteq> [] \<and> rc1 = 0")
    case True
    obtain out' s2 where g: "get_output (print_no_streaming_output out False s) = (out', s2)"
      by (cases "get_output (print_no_streaming_output out False s)")
    have "\<exists>rest. trace (snd (wrk1_drain rc1 out' s2)) = trace s2 @ rest \<and> list_all passive_event rest"
      using "1.IH" True g by simp
    then obtain rest where
      r: "trace (snd (wrk1_drain rc1 out' s2)) = trace s2 @ rest" "list_all passive_event rest"
      by blast
    have t2: "trace s2 = trace s @ [PrintOutput out False, GetOutput]"
      using get_output_trace [of "print_no_streaming_output out False s"] g
      by (simp add: print_no_streaming_output_def)
    show ?thesis
      using True g r t2 by (subst wrk1_drain.simps) simp
  next
    case False
    then show ?thesis by (subst wrk1_drain.simps) auto
  qed
qed

lemma wrk2_drain_trace:
  "\<exists>rest. trace (wrk2_drain E real_cmd colon mode out s) = trace s @ rest \<and> list_all passive_event rest"
proof (induction E real_cmd colon mode out s rule: wrk2_drain.induct)
  case (1 E real_cmd colon mode out s)
  obtain out_tmp s1 where g: "get_output s = (out_tmp, s1)"
    by (cases "get_output s")
  have t1: "trace s1 = trace s @ [GetOutput]"
    using get_output_trace [of s] g by simp
  define out1 where "out1 = (if mode \<noteq> 1 then output_get_interactive_result E out real_cmd colon mode else out)"
  show ?case
  proof (cases "out \<noteq> [] \<and> out_tmp \<noteq> []")
    case True
    have "\<exists>rest. trace (wrk2_drain E real_cmd colon mode out_tmp (print_no_streaming_output out1 False s1))
          = trace (print_no_streaming_output out1 False s1) @ rest \<and> list_all passive_event rest"
      using "1.IH" True g by (simp add: out1_def)
    then obtain rest where
      r: "trace (wrk2_drain E real_cmd colon mode out_tmp (print_no_streaming_output out1 False s1))
          = trace (print_no_streaming_output out1 False s1) @ rest"
         "list_all passive_event rest"
      by blast
    show ?thesis
      using True g r t1 by (subst wrk2_drain.simps) (simp add: print_no_streaming_output_def out1_def)
  next
    case False
    then show ?thesis
      using g t1 by (subst wrk2_drain.simps) (auto simp: print_no_streaming_output_def)
  qed
qed

lemma StataSO_Execute_fields [simp]:
  "fst (StataSO_Execute E cmd echo s) = fst (engine E (nexec s) cmd)"
  "trace (snd (StataSO_Execute E cmd echo s)) = trace s @ [Execute cmd echo]"
  "nexec (snd (StataSO_Execute E cmd echo s)) = Suc (nexec s)"
  "ntemp (snd (StataSO_Execute E cmd echo s)) = ntemp s"
  "rc2 (snd (StataSO_Execute E cmd echo s)) = rc2 s"
  "outbuf (snd (StataSO_Execute E cmd echo s)) = outbuf s @ snd (engine E (nexec s) cmd)"
  by (simp_all add: StataSO_Execute_def split: prod.splits)

lemma SetBreak_notice_trace [simp]:
  "trace (SetBreak_notice s) = trace s @ [SetBreak, Print (nl @ ''KeyboardInterrupt: --break--'')]"
  by (simp add: SetBreak_notice_def)

lemma stata_wrk1_trace:
  "\<exists>rest. trace (snd (stata_wrk1 E cmd echo s)) =
            trace s @ (if streamout E then [PollerStart 1 None None None] else [])
              @ Execute cmd echo # rest
          \<and> list_all passive_event rest"
proof (cases "streamout E \<or> interrupt E (nexec s)")
  case True
  then show ?thesis
    by (auto simp: stata_wrk1_def Let_def split_beta split: option.splits)
next
  case False
  define s1 where "s1 = snd (StataSO_Execute E cmd echo s)"
  obtain rest where r:
    "trace (snd (wrk1_drain (fst (engine E (nexec s) cmd)) (fst (get_output s1)) (snd (get_output s1))))
       = trace (snd (get_output s1)) @ rest"
    "list_all passive_event rest"
    using wrk1_drain_trace by blast
  show ?thesis
    using False r by (simp add: stata_wrk1_def Let_def split_beta get_output_trace s1_def)
qed

lemma stata_wrk2_trace:
  "\<exists>rest. trace (snd (stata_wrk2 E cmd real_cmd colon mode s)) =
            trace s @ (if streamout E then [PollerStart 2 real_cmd (Some colon) (Some mode)] else [])
              @ Execute cmd False # rest
          \<and> list_all passive_event rest"
proof (cases "streamout E \<or> interrupt E (nexec s)")
  case True
  then show ?thesis
    by (auto simp: stata_wrk2_def Let_def split_beta split: option.splits)
next
  case False
  define s1 where "s1 = (snd (StataSO_Execute E cmd False s))\<lparr>rc2 := fst (engine E (nexec s) cmd)\<rparr>"
  obtain rest where r:
    "trace (wrk2_drain E real_cmd colon mode (fst (get_output s1)) (snd (get_output s1)))
       = trace (snd (get_output s1)) @ rest"
    "list_all passive_event rest"
    using wrk2_drain_trace by blast
  show ?thesis
  proof (cases "fst (engine E (nexec s) cmd) = 0")
    case True
    then show ?thesis
      using False r
      by (auto simp: stata_wrk2_def Let_def split_beta get_output_trace s1_def)
  next
    case nz: False
    then show ?thesis
      using False
      by (simp add: stata_wrk2_def Let_def split_beta get_output_trace
          print_no_streaming_output_def)
  qed
qed

section \<open>What the sessions and the dispatcher leave in the trace\<close>

lemma gr_list_fields [simp]:
  "fst (gr_list E onoff s) = (if interrupt E (nexec s) then Some KeyboardInterrupt else None)"
  "trace (snd (gr_list E onoff s)) = trace s @ [Execute (''qui _gr_list '' @ onoff) False]"
  "ntemp (snd (gr_list E onoff s)) = ntemp s"
  "nexec (snd (gr_list E onoff s)) = Suc (nexec s)"
  by (simp_all add: gr_list_def split_beta)

lemma passive_no_Clear: "list_all passive_event evs \<Longrightarrow> ClearOutputBuffer \<notin> set evs"
  by (induction evs) auto

lemma getTempFile_fields [simp]:
  "fst (getTempFile E s) = tempfile E (ntemp s)"
  "trace (snd (getTempFile E s)) = trace s @ [GetTempFile (tempfile E (ntemp s))]"
  "nexec (snd (getTempFile E s)) = nexec s"
  by (simp_all add: getTempFile_def Let_def)

lemma write_unit_fields [simp]:
  "trace (write_unit tmpf input_cmd incmds1 s) =
     trace s @ [WriteFile tmpf (input_cmd @ nl @ incmds1 @ ''end'')]"
  "nexec (write_unit tmpf input_cmd incmds1 s) = nexec s"
  by (simp_all add: write_unit_def)

lemma run_finish_trace:
  "trace (snd (run_finish E inl rs)) =
     trace (snd rs) @
       (if inl \<and> fst rs = None
        then (if stipython E \<ge> 3 then [GrDisplay] else []) @ [Execute ''qui _gr_list off'' False]
        else [])"
  by (simp add: run_finish_def Let_def split: option.splits)

lemma run_finish_fst:
  "fst (run_finish E inl rs) =
     (case fst rs of
        Some e \<Rightarrow> Some e
      | None \<Rightarrow>
          if inl \<and> interrupt E (nexec (snd rs)) then Some KeyboardInterrupt else None)"
  by (simp add: run_finish_def Let_def split: option.splits)

lemma staged_unit_trace:
  "\<exists>rest. trace (snd (staged_unit E quietly has_colon mode input_cmd incmds1 incmds2 s)) =
            trace s @ [GetTempFile (tempfile E (ntemp s)),
                       WriteFile (tempfile E (ntemp s)) (input_cmd @ nl @ incmds1 @ ''end'')]
              @ (if streamout E then [PollerStart 2 (Some incmds2) (Some has_colon) (Some mode)] else [])
              @ Execute ((if quietly then ''qui include '' else ''include '') @ tempfile E (ntemp s))
                  False # rest
          \<and> list_all passive_event rest"
  using stata_wrk2_trace [of E "''qui include '' @ tempfile E (ntemp s)" "Some incmds2"
      has_colon mode "write_unit (tempfile E (ntemp s)) input_cmd incmds1 (snd (getTempFile E s))"]
    stata_wrk2_trace [of E "''include '' @ tempfile E (ntemp s)" "Some incmds2"
      has_colon mode "write_unit (tempfile E (ntemp s)) input_cmd incmds1 (snd (getTempFile E s))"]
  by (simp add: staged_unit_def Let_def split_beta)

lemma staged_unit_extends:
  "\<exists>evs. trace (snd (staged_unit E quietly has_colon mode input_cmd incmds1 incmds2 s)) = trace s @ evs"
  using staged_unit_trace [of E quietly has_colon mode input_cmd incmds1 incmds2 s] by auto

lemma mata_loop_unfold:
  "mata_loop E quietly has_colon input_cmd incmd incmds1 incmds2 inprompt ins s =
     (if incmd = ''end'' then (None, emit (DisplayLn ''{hline}'') s)
      else
        (let w = staged_unit E quietly has_colon 2 input_cmd (incmds1 @ incmd @ nl)
                   (incmds2 @ inprompt @ incmd @ nl) s
         in case fst w of
              Some e \<Rightarrow> (Some e, snd w)
            | None \<Rightarrow>
                if rc2 (snd w) \<noteq> 0 then
                  (if rc2 (snd w) \<noteq> 3000 then (None, snd w)
                   else
                     (case ins of
                        [] \<Rightarrow> (Some EOFError, emit (UserInput ''> '') (snd w))
                      | i # ins' \<Rightarrow>
                          mata_loop E quietly has_colon input_cmd (strip i) (incmds1 @ incmd @ nl)
                            (incmds2 @ inprompt @ incmd @ nl) ''> ''
                            ins' (emit (UserInput ''> '') (snd w))))
                else
                  (case ins of
                     [] \<Rightarrow> (Some EOFError, emit (UserInput '': '') (snd w))
                   | i # ins' \<Rightarrow>
                       mata_loop E quietly has_colon input_cmd (strip i) [] [] '': ''
                         ins' (emit (UserInput '': '') (snd w)))))"
  by (subst mata_loop.simps) (simp add: Let_def split_beta)

lemma python_loop_unfold:
  "python_loop E quietly has_colon input_cmd incmd incmds1 incmds2 inprompt ins s =
     (if incmd = ''end'' then (None, emit (DisplayLn ''{hline}'') s)
      else
        (let c = check_unit E (inprompt @ incmd) (incmds1 @ incmd) (incmds2 @ inprompt @ incmd) s
         in if fst (fst c) then
              (case ins of
                 [] \<Rightarrow> (Some EOFError, emit (UserInput ''... '') (snd c))
               | i # ins' \<Rightarrow>
                   python_loop E quietly has_colon input_cmd i (fst (snd (fst c))) (snd (snd (fst c)))
                     ''... '' ins' (emit (UserInput ''... '') (snd c)))
            else
              (let w = staged_unit E quietly has_colon 3 input_cmd (fst (snd (fst c)))
                         (snd (snd (fst c))) (snd c)
               in case fst w of
                    Some e \<Rightarrow> (Some e, snd w)
                  | None \<Rightarrow>
                      if rc2 (snd w) \<noteq> 0 then (None, snd w)
                      else
                        (case ins of
                           [] \<Rightarrow> (Some EOFError, emit (UserInput ''>>> '') (snd w))
                         | i # ins' \<Rightarrow>
                             python_loop E quietly has_colon input_cmd i [] [] ''>>> ''
                               ins' (emit (UserInput ''>>> '') (snd w))))))"
  by (subst python_loop.simps) (simp add: Let_def split_beta)

lemma check_unit_extends:
  "\<exists>evs. trace (snd (check_unit E incmd incmds1 incmds2 s)) = trace s @ evs"
  by (simp add: check_unit_def split: compiled.splits)

lemma mata_loop_extends:
  "\<exists>evs. trace (snd (mata_loop E quietly has_colon input_cmd incmd incmds1 incmds2 inprompt ins s))
          = trace s @ evs"
proof (induction ins arbitrary: incmd incmds1 incmds2 inprompt s)
  case Nil
  obtain evs where "trace (snd (staged_unit E quietly has_colon 2 input_cmd (incmds1 @ incmd @ nl)
                   (incmds2 @ inprompt @ incmd @ nl) s)) = trace s @ evs"
    using staged_unit_extends by blast
  then show ?case
    by (subst mata_loop_unfold) (simp add: Let_def split: option.splits)
next
  case (Cons i ins)
  define w where "w = staged_unit E quietly has_colon 2 input_cmd (incmds1 @ incmd @ nl)
                   (incmds2 @ inprompt @ incmd @ nl) s"
  obtain evs where r: "trace (snd w) = trace s @ evs"
    unfolding w_def using staged_unit_extends by blast
  obtain evs1 where e1:
    "trace (snd (mata_loop E quietly has_colon input_cmd (strip i) (incmds1 @ incmd @ nl)
        (incmds2 @ inprompt @ incmd @ nl) ''> '' ins (emit (UserInput ''> '') (snd w))))
     = trace (emit (UserInput ''> '') (snd w)) @ evs1"
    using Cons.IH by blast
  obtain evs2 where e2:
    "trace (snd (mata_loop E quietly has_colon input_cmd (strip i) [] [] '': '' ins
        (emit (UserInput '': '') (snd w))))
     = trace (emit (UserInput '': '') (snd w)) @ evs2"
    using Cons.IH by blast
  show ?case
    using r e1 e2
    by (subst mata_loop_unfold) (simp add: Let_def w_def [symmetric] split: option.splits)
qed

lemma python_loop_extends:
  "\<exists>evs. trace (snd (python_loop E quietly has_colon input_cmd incmd incmds1 incmds2 inprompt ins s))
          = trace s @ evs"
proof (induction ins arbitrary: incmd incmds1 incmds2 inprompt s)
  case Nil
  define c where "c = check_unit E (inprompt @ incmd) (incmds1 @ incmd) (incmds2 @ inprompt @ incmd) s"
  define w where "w = staged_unit E quietly has_colon 3 input_cmd (fst (snd (fst c)))
                         (snd (snd (fst c))) (snd c)"
  obtain evs0 where c0: "trace (snd c) = trace s @ evs0"
    unfolding c_def using check_unit_extends by blast
  obtain evs where r: "trace (snd w) = trace (snd c) @ evs"
    unfolding w_def using staged_unit_extends by blast
  show ?case
    using c0 r
    by (subst python_loop_unfold)
       (simp add: Let_def c_def [symmetric] w_def [symmetric] split: option.splits)
next
  case (Cons i ins)
  define c where "c = check_unit E (inprompt @ incmd) (incmds1 @ incmd) (incmds2 @ inprompt @ incmd) s"
  define w where "w = staged_unit E quietly has_colon 3 input_cmd (fst (snd (fst c)))
                         (snd (snd (fst c))) (snd c)"
  obtain evs0 where c0: "trace (snd c) = trace s @ evs0"
    unfolding c_def using check_unit_extends by blast
  obtain evs where r: "trace (snd w) = trace (snd c) @ evs"
    unfolding w_def using staged_unit_extends by blast
  obtain evs1 where e1:
    "trace (snd (python_loop E quietly has_colon input_cmd i (fst (snd (fst c))) (snd (snd (fst c)))
                     ''... '' ins (emit (UserInput ''... '') (snd c))))
     = trace (emit (UserInput ''... '') (snd c)) @ evs1"
    using Cons.IH by blast
  obtain evs2 where e2:
    "trace (snd (python_loop E quietly has_colon input_cmd i [] [] ''>>> '' ins
        (emit (UserInput ''>>> '') (snd w))))
     = trace (emit (UserInput ''>>> '') (snd w)) @ evs2"
    using Cons.IH by blast
  show ?case
    using c0 r e1 e2
    by (subst python_loop_unfold)
       (simp add: Let_def c_def [symmetric] w_def [symmetric] split: option.splits)
qed

lemma mata_session_extends:
  "\<exists>evs. trace (snd (mata_session E quietly input_cmd ins s)) = trace s @ evs"
proof (cases ins)
  case Nil
  then show ?thesis by (simp add: mata_session_def)
next
  case (Cons i ins')
  obtain evs where
    "trace (snd (mata_loop E quietly (input_cmd = ''mata:'') input_cmd (strip i) [] [] '': '' ins'
       (emit (UserInput '': '') (emit (DisplayLn ''{hline 49} mata (type {cmd:end} to exit) {hline}'')
          (emit (Print (''. '' @ input_cmd)) s)))))
     = trace (emit (UserInput '': '') (emit (DisplayLn ''{hline 49} mata (type {cmd:end} to exit) {hline}'')
          (emit (Print (''. '' @ input_cmd)) s))) @ evs"
    using mata_loop_extends by blast
  then show ?thesis using Cons by (simp add: mata_session_def)
qed

lemma python_session_extends:
  "\<exists>evs. trace (snd (python_session E quietly input_cmd ins s)) = trace s @ evs"
proof (cases ins)
  case Nil
  then show ?thesis by (simp add: python_session_def)
next
  case (Cons i ins')
  obtain evs where
    "trace (snd (python_loop E quietly (input_cmd = ''python:'') input_cmd i [] [] ''>>> '' ins'
       (emit (UserInput ''>>> '') (emit (DisplayLn ''{hline 47} python (type {cmd:end} to exit) {hline}'')
          (emit (Print (''. '' @ input_cmd)) s)))))
     = trace (emit (UserInput ''>>> '') (emit (DisplayLn ''{hline 47} python (type {cmd:end} to exit) {hline}'')
          (emit (Print (''. '' @ input_cmd)) s))) @ evs"
    using python_loop_extends by blast
  then show ?thesis using Cons by (simp add: python_session_def)
qed

section \<open>The completeness check and the return code of a unit\<close>

text \<open>The test for the escape prefix reads the line behind its prompt, so it never finds
  the prefix.\<close>

lemma escape_test_never_fires:
  "inprompt = ''>>> '' \<or> inprompt = ''... '' \<Longrightarrow> take 6 (inprompt @ incmd) \<noteq> ''stata:''"
  by auto

lemma check_unit_eval:
  assumes "inprompt = ''>>> '' \<or> inprompt = ''... ''"
  shows "check_unit E (inprompt @ incmd) incmds1 incmds2 s =
           ((compile_command E incmds1 = Incomplete,
             incmds1 @ (if compile_command E incmds1 = ParseError then [] else nl),
             incmds2 @ (if compile_command E incmds1 = ParseError then [] else nl)),
            emit (CompileCommand incmds1) s)"
  using escape_test_never_fires [OF assms, of incmd]
  by (simp add: check_unit_def split: compiled.splits)


lemma get_output_rc2 [simp]: "rc2 (snd (get_output s)) = rc2 s"
  by (simp add: get_output_def split: list.splits)

lemma wrk2_drain_rc2: "rc2 (wrk2_drain E real_cmd colon mode out s) = rc2 s"
proof (induction E real_cmd colon mode out s rule: wrk2_drain.induct)
  case (1 E real_cmd colon mode out s)
  define out1 where "out1 = (if mode \<noteq> 1 then output_get_interactive_result E out real_cmd colon mode else out)"
  show ?case
  proof (cases "out \<noteq> [] \<and> fst (get_output s) \<noteq> []")
    case True
    have "rc2 (wrk2_drain E real_cmd colon mode (fst (get_output s))
                (print_no_streaming_output out1 False (snd (get_output s))))
          = rc2 (print_no_streaming_output out1 False (snd (get_output s)))"
      using "1.IH" [of "get_output s" "fst (get_output s)" "snd (get_output s)" out1
          "print_no_streaming_output out1 False (snd (get_output s))"] True
      by (simp add: out1_def)
    then show ?thesis
      using True
      by (subst wrk2_drain.simps) (simp add: split_beta Let_def out1_def print_no_streaming_output_def)
  next
    case False
    then show ?thesis
      by (subst wrk2_drain.simps) (auto simp: split_beta print_no_streaming_output_def)
  qed
qed

lemma stata_wrk2_rc2:
  "\<not> interrupt E (nexec s) \<Longrightarrow>
     rc2 (snd (stata_wrk2 E cmd real_cmd colon mode s)) = fst (engine E (nexec s) cmd)"
  by (simp add: stata_wrk2_def Let_def split_beta wrk2_drain_rc2 print_no_streaming_output_def
      split: option.splits)

lemma stata_wrk2_session_no_error:
  "\<not> streamout E \<Longrightarrow> mode \<noteq> 1 \<Longrightarrow> fst (stata_wrk2 E cmd real_cmd colon mode s) = None"
  by (simp add: stata_wrk2_def Let_def split_beta)

lemma stata_wrk2_3000_trace:
  "\<not> streamout E \<Longrightarrow> \<not> interrupt E (nexec s) \<Longrightarrow> fst (engine E (nexec s) cmd) = 3000 \<Longrightarrow>
     trace (snd (stata_wrk2 E cmd real_cmd colon mode s)) = trace s @ [Execute cmd False, GetOutput]"
  by (simp add: stata_wrk2_def Let_def split_beta get_output_trace)

lemma staged_unit_as_wrk2:
  "staged_unit E quietly has_colon mode input_cmd incmds1 incmds2 s =
     stata_wrk2 E ((if quietly then ''qui include '' else ''include '') @ tempfile E (ntemp s))
       (Some incmds2) has_colon mode
       (write_unit (tempfile E (ntemp s)) input_cmd incmds1 (snd (getTempFile E s)))"
  by (simp add: staged_unit_def Let_def split_beta)

lemma staged_unit_rc2:
  "\<not> interrupt E (nexec s) \<Longrightarrow>
     rc2 (snd (staged_unit E quietly has_colon mode input_cmd incmds1 incmds2 s)) =
       fst (engine E (nexec s)
              ((if quietly then ''qui include '' else ''include '') @ tempfile E (ntemp s)))"
  by (simp add: staged_unit_as_wrk2 stata_wrk2_rc2)

section \<open>Stripped lines\<close>



section \<open>What a worker can raise, and what it leaves on a non-zero return code\<close>

lemma wrk1_drain_result:
  "fst (wrk1_drain rc1 out s) = None \<or> is_SystemError (fst (wrk1_drain rc1 out s))"
proof (induction rc1 out s rule: wrk1_drain.induct)
  case (1 rc1 out s)
  show ?case
  proof (cases "out \<noteq> [] \<and> rc1 = 0")
    case True
    then show ?thesis
      using "1.IH" [of "print_no_streaming_output out False s"
          "get_output (print_no_streaming_output out False s)"
          "fst (get_output (print_no_streaming_output out False s))"
          "snd (get_output (print_no_streaming_output out False s))"]
      by (subst (1 2) wrk1_drain.simps) (simp add: Let_def split_beta)
  next
    case False
    then show ?thesis by (subst (1 2) wrk1_drain.simps) auto
  qed
qed

lemma stata_wrk1_result:
  "fst (stata_wrk1 E cmd echo s) = None \<or> is_SystemError (fst (stata_wrk1 E cmd echo s))"
  using wrk1_drain_result
  by (auto simp: stata_wrk1_def Let_def split_beta split: option.splits)

lemma stata_wrk2_result:
  "fst (stata_wrk2 E cmd real_cmd colon mode s) = None \<or>
   is_SystemError (fst (stata_wrk2 E cmd real_cmd colon mode s))"
  by (auto simp: stata_wrk2_def Let_def split_beta split: option.splits)

lemma stata_wrk2_session_returns:
  assumes "mode \<noteq> 1"
    and "streamout E \<and> \<not> interrupt E (nexec s) \<longrightarrow> outputter_join E (Suc (nexec s)) = None"
  shows "fst (stata_wrk2 E cmd real_cmd colon mode s) = None"
  using assms by (simp add: stata_wrk2_def Let_def split_beta)

lemma get_output_fst:
  "fst (get_output s) = (case outbuf s of [] \<Rightarrow> [] | c # cs \<Rightarrow> c)"
  by (simp add: get_output_def split: list.splits)

lemma stata_wrk2_nonzero_trace:
  assumes "mode \<noteq> 1" and "\<not> interrupt E (nexec s)"
    and "streamout E \<longrightarrow> outputter_join E (Suc (nexec s)) = None"
    and "fst (engine E (nexec s) cmd) \<noteq> 0"
  shows "trace (snd (stata_wrk2 E cmd real_cmd colon mode s)) =
           trace s @
             (if streamout E
              then [PollerStart 2 real_cmd (Some colon) (Some mode), Execute cmd False,
                    QueuePut (fst (engine E (nexec s) cmd)), PollerJoin, PollerDone]
              else [Execute cmd False, GetOutput] @
                   (if fst (engine E (nexec s) cmd) = 3000 then []
                    else [PrintOutput
                            (output_get_interactive_result E
                               (case outbuf s @ snd (engine E (nexec s) cmd) of
                                  [] \<Rightarrow> [] | c # cs \<Rightarrow> c)
                               real_cmd colon mode) False]))"
  using assms
  by (simp add: stata_wrk2_def Let_def split_beta get_output_trace get_output_fst
      print_no_streaming_output_def)

lemma staged_unit_session_returns:
  assumes "mode \<noteq> 1"
    and "streamout E \<and> \<not> interrupt E (nexec s) \<longrightarrow> outputter_join E (Suc (nexec s)) = None"
  shows "fst (staged_unit E quietly has_colon mode input_cmd incmds1 incmds2 s) = None"
  using assms by (simp add: staged_unit_as_wrk2 stata_wrk2_session_returns)

lemma write_unit_outbuf [simp]:
  "outbuf (write_unit tmpf input_cmd incmds1 s) = outbuf s"
  by (simp add: write_unit_def)

lemma getTempFile_outbuf [simp]: "outbuf (snd (getTempFile E s)) = outbuf s"
  by (simp add: getTempFile_def Let_def)

lemma staged_unit_nonzero_trace:
  assumes "mode \<noteq> 1" and "\<not> interrupt E (nexec s)"
    and "streamout E \<longrightarrow> outputter_join E (Suc (nexec s)) = None"
    and "fst (engine E (nexec s)
                ((if quietly then ''qui include '' else ''include '') @ tempfile E (ntemp s))) \<noteq> 0"
  shows "trace (snd (staged_unit E quietly has_colon mode input_cmd incmds1 incmds2 s)) =
           trace s @
             [GetTempFile (tempfile E (ntemp s)),
              WriteFile (tempfile E (ntemp s)) (input_cmd @ nl @ incmds1 @ ''end'')] @
             (if streamout E
              then [PollerStart 2 (Some incmds2) (Some has_colon) (Some mode),
                    Execute ((if quietly then ''qui include '' else ''include '')
                               @ tempfile E (ntemp s)) False,
                    QueuePut (fst (engine E (nexec s)
                                ((if quietly then ''qui include '' else ''include '')
                                   @ tempfile E (ntemp s)))),
                    PollerJoin, PollerDone]
              else [Execute ((if quietly then ''qui include '' else ''include '')
                               @ tempfile E (ntemp s)) False, GetOutput] @
                   (if fst (engine E (nexec s)
                              ((if quietly then ''qui include '' else ''include '')
                                 @ tempfile E (ntemp s))) = 3000 then []
                    else [PrintOutput
                            (output_get_interactive_result E
                               (case outbuf s @ snd (engine E (nexec s)
                                       ((if quietly then ''qui include '' else ''include '')
                                          @ tempfile E (ntemp s))) of
                                  [] \<Rightarrow> [] | c # cs \<Rightarrow> c)
                               (Some incmds2) has_colon mode) False]))"
proof -
  define s2 where "s2 = write_unit (tempfile E (ntemp s)) input_cmd incmds1 (snd (getTempFile E s))"
  have n: "nexec s2 = nexec s" and o: "outbuf s2 = outbuf s"
    and t: "trace s2 = trace s @ [GetTempFile (tempfile E (ntemp s)),
              WriteFile (tempfile E (ntemp s)) (input_cmd @ nl @ incmds1 @ ''end'')]"
    by (simp_all add: s2_def)
  show ?thesis
    using stata_wrk2_nonzero_trace [of mode E s2
        "(if quietly then ''qui include '' else ''include '') @ tempfile E (ntemp s)"
        "Some incmds2" has_colon] assms
    unfolding staged_unit_as_wrk2 s2_def [symmetric] n o t
    by simp
qed

section \<open>The dispatcher, unfolded\<close>

lemma run_toggle_interrupted:
  assumes "splitlines cmd \<noteq> []" and "resolve_inline E inline = Inr True"
    and "interrupt E (nexec s)"
  shows "run E cmd quietly echo inline ins s =
           (Some KeyboardInterrupt, snd (gr_list E ''on'' (StataSO_ClearOutputBuffer s)))"
proof -
  have n: "nexec (StataSO_ClearOutputBuffer s) = nexec s"
    by (simp add: StataSO_ClearOutputBuffer_def)
  obtain r s2 where g: "gr_list E ''on'' (StataSO_ClearOutputBuffer s) = (r, s2)"
    by (cases "gr_list E ''on'' (StataSO_ClearOutputBuffer s)")
  have r: "r = Some KeyboardInterrupt"
    using gr_list_fields(1) [of E "''on''" "StataSO_ClearOutputBuffer s"] g assms(3) n by simp
  show ?thesis
  proof (cases "splitlines cmd")
    case Nil
    then show ?thesis using assms(1) by simp
  next
    case (Cons c cs)
    then show ?thesis
      using assms(2) g r by (cases cs) (simp_all add: run_def Let_def)
  qed
qed

lemma run_single_line:
  assumes "splitlines cmd = [c]" and "resolve_inline E inline = Inr inl"
    and "strip c \<notin> {''mata'', ''mata:'', ''python'', ''python:''}"
    and "\<not> (inl \<and> interrupt E (nexec s))"
  shows "run E cmd quietly echo inline ins s =
           run_finish E inl
             (stata_wrk1 E ((if quietly then ''qui '' else []) @ c) echo
                (if inl then snd (gr_list E ''on'' (StataSO_ClearOutputBuffer s))
                 else StataSO_ClearOutputBuffer s))"
proof -
  have n: "nexec (StataSO_ClearOutputBuffer s) = nexec s"
    by (simp add: StataSO_ClearOutputBuffer_def)
  obtain r s2 where g: "gr_list E ''on'' (StataSO_ClearOutputBuffer s) = (r, s2)"
    by (cases "gr_list E ''on'' (StataSO_ClearOutputBuffer s)")
  have r: "inl \<Longrightarrow> r = None"
    using gr_list_fields(1) [of E "''on''" "StataSO_ClearOutputBuffer s"] g assms(4) n by simp
  show ?thesis
    using assms(1-3) g r by (cases inl) (simp_all add: run_def Let_def)
qed

lemma run_multi_line:
  assumes "2 \<le> length (splitlines cmd)" and "resolve_inline E inline = Inr inl"
    and "\<not> (inl \<and> interrupt E (nexec s))"
  shows "run E cmd quietly echo inline ins s =
           run_finish E inl
             (stata_wrk2 E ((if quietly then ''qui include '' else ''include '') @ tempfile E (ntemp s))
                None False 1
                (emit (WriteFile (tempfile E (ntemp s)) cmd)
                   (snd (getTempFile E
                      (if inl then snd (gr_list E ''on'' (StataSO_ClearOutputBuffer s))
                       else StataSO_ClearOutputBuffer s)))))"
proof -
  obtain c d cs where sp: "splitlines cmd = c # d # cs"
    using assms(1) by (cases "splitlines cmd" rule: list.exhaust; simp; cases "tl (splitlines cmd)"; simp)
  have n: "nexec (StataSO_ClearOutputBuffer s) = nexec s"
    by (simp add: StataSO_ClearOutputBuffer_def)
  obtain r s2 where g: "gr_list E ''on'' (StataSO_ClearOutputBuffer s) = (r, s2)"
    by (cases "gr_list E ''on'' (StataSO_ClearOutputBuffer s)")
  have r: "inl \<Longrightarrow> r = None"
    using gr_list_fields(1) [of E "''on''" "StataSO_ClearOutputBuffer s"] g assms(3) n by simp
  have "ntemp (snd (gr_list E ''on'' (StataSO_ClearOutputBuffer s))) = ntemp s"
    by (simp add: StataSO_ClearOutputBuffer_def)
  then have m: "ntemp s2 = ntemp s"
    by (simp add: g)
  show ?thesis
    using sp assms(2) assms(3) g r m
    by (cases inl) (simp_all add: run_def Let_def split_beta StataSO_ClearOutputBuffer_def)
qed

section \<open>The dispatcher and its branches\<close>

lemma run_one_line:
  assumes "splitlines cmd = [c]" and "resolve_inline E inline = Inr inl"
    and "\<not> (inl \<and> interrupt E (nexec s))"
  shows "run E cmd quietly echo inline ins s =
           run_finish E inl
             (let s2 = (if inl then snd (gr_list E ''on'' (StataSO_ClearOutputBuffer s))
                        else StataSO_ClearOutputBuffer s)
              in if strip c = ''mata'' \<or> strip c = ''mata:''
                 then mata_session E quietly (strip c) ins s2
                 else if strip c = ''python'' \<or> strip c = ''python:''
                 then python_session E quietly (strip c) ins s2
                 else if quietly then stata_wrk1 E (''qui '' @ c) echo s2
                 else stata_wrk1 E c echo s2)"
proof -
  have n: "nexec (StataSO_ClearOutputBuffer s) = nexec s"
    by (simp add: StataSO_ClearOutputBuffer_def)
  obtain r s2 where g: "gr_list E ''on'' (StataSO_ClearOutputBuffer s) = (r, s2)"
    by (cases "gr_list E ''on'' (StataSO_ClearOutputBuffer s)")
  have r: "inl \<Longrightarrow> r = None"
    using gr_list_fields(1) [of E "''on''" "StataSO_ClearOutputBuffer s"] g assms(3) n by simp
  show ?thesis
    using assms(1,2) g r by (cases inl) (simp_all add: run_def Let_def)
qed

lemma run_body:
  assumes "splitlines cmd \<noteq> []" and "resolve_inline E inline = Inr inl"
    and "\<not> (inl \<and> interrupt E (nexec s))"
  shows "\<exists>w evs. run E cmd quietly echo inline ins s = run_finish E inl w \<and>
           trace (snd w) =
             trace s @ [ClearOutputBuffer]
               @ (if inl then [Execute ''qui _gr_list on'' False] else []) @ evs \<and>
           (length (splitlines cmd) = 1 \<and>
            strip (hd (splitlines cmd)) \<notin> {''mata'', ''mata:'', ''python'', ''python:''} \<longrightarrow>
              Execute ((if quietly then ''qui '' else []) @ hd (splitlines cmd)) echo \<in> set evs) \<and>
           (2 \<le> length (splitlines cmd) \<longrightarrow>
              Execute ((if quietly then ''qui include '' else ''include '') @ tempfile E (ntemp s))
                False \<in> set evs)"
proof -
  define s2 where "s2 = (if inl then snd (gr_list E ''on'' (StataSO_ClearOutputBuffer s))
                         else StataSO_ClearOutputBuffer s)"
  have t2: "trace s2 = trace s @ [ClearOutputBuffer]
               @ (if inl then [Execute ''qui _gr_list on'' False] else [])"
    by (simp add: s2_def StataSO_ClearOutputBuffer_def)
  have "\<exists>w evs. run E cmd quietly echo inline ins s = run_finish E inl w \<and>
           trace (snd w) = trace s2 @ evs \<and>
           (length (splitlines cmd) = 1 \<and>
            strip (hd (splitlines cmd)) \<notin> {''mata'', ''mata:'', ''python'', ''python:''} \<longrightarrow>
              Execute ((if quietly then ''qui '' else []) @ hd (splitlines cmd)) echo \<in> set evs) \<and>
           (2 \<le> length (splitlines cmd) \<longrightarrow>
              Execute ((if quietly then ''qui include '' else ''include '') @ tempfile E (ntemp s))
                False \<in> set evs)"
  proof (cases "2 \<le> length (splitlines cmd)")
    case True
    have n2: "ntemp s2 = ntemp s"
      by (simp add: s2_def StataSO_ClearOutputBuffer_def)
    define incl where "incl = (if quietly then ''qui include '' else ''include '') @ tempfile E (ntemp s)"
    define s4 where "s4 = emit (WriteFile (tempfile E (ntemp s)) cmd) (snd (getTempFile E s2))"
    obtain rest where "trace (snd (stata_wrk2 E incl None False 1 s4))
         = trace s4 @ (if streamout E then [PollerStart 2 None (Some False) (Some 1)] else [])
          @ Execute incl False # rest"
      using stata_wrk2_trace by blast
    then have "trace (snd (stata_wrk2 E incl None False 1 s4))
         = trace s2 @ ([GetTempFile (tempfile E (ntemp s)), WriteFile (tempfile E (ntemp s)) cmd]
          @ (if streamout E then [PollerStart 2 None (Some False) (Some 1)] else [])
          @ Execute incl False # rest)"
      by (simp add: s4_def n2)
    moreover have "Execute incl False \<in> set ([GetTempFile (tempfile E (ntemp s)),
            WriteFile (tempfile E (ntemp s)) cmd]
          @ (if streamout E then [PollerStart 2 None (Some False) (Some 1)] else [])
          @ Execute incl False # rest)"
      by simp
    moreover have "run E cmd quietly echo inline ins s =
        run_finish E inl (stata_wrk2 E incl None False 1 s4)"
      unfolding s4_def s2_def incl_def by (rule run_multi_line [OF True assms(2) assms(3)])
    ultimately show ?thesis
      using True unfolding incl_def by (metis (no_types, lifting) Suc_1 not_less_eq_eq order_refl)
  next
    case False
    then obtain c where c: "splitlines cmd = [c]"
      using assms(1) by (cases "splitlines cmd"; simp; cases "tl (splitlines cmd)"; simp)
    define w where "w =
       (if strip c = ''mata'' \<or> strip c = ''mata:'' then mata_session E quietly (strip c) ins s2
        else if strip c = ''python'' \<or> strip c = ''python:'' then python_session E quietly (strip c) ins s2
        else if quietly then stata_wrk1 E (''qui '' @ c) echo s2
        else stata_wrk1 E c echo s2)"
    have r: "run E cmd quietly echo inline ins s = run_finish E inl w"
      using run_one_line [OF c assms(2) assms(3)] by (simp add: w_def s2_def Let_def)
    have "\<exists>evs. trace (snd w) = trace s2 @ evs \<and>
            (strip c \<notin> {''mata'', ''mata:'', ''python'', ''python:''} \<longrightarrow>
              Execute ((if quietly then ''qui '' else []) @ c) echo \<in> set evs)"
    proof (cases "strip c \<in> {''mata'', ''mata:'', ''python'', ''python:''}")
      case True
      then show ?thesis
        unfolding w_def
        using mata_session_extends [of E quietly "strip c" ins s2]
          python_session_extends [of E quietly "strip c" ins s2]
        by auto
    next
      case nt: False
      obtain rest where "trace (snd (stata_wrk1 E ((if quietly then ''qui '' else []) @ c) echo s2)) =
          trace s2 @ ((if streamout E then [PollerStart 1 None None None] else [])
              @ Execute ((if quietly then ''qui '' else []) @ c) echo # rest)"
        using stata_wrk1_trace [of E "(if quietly then ''qui '' else []) @ c" echo s2] by auto
      moreover have "w = stata_wrk1 E ((if quietly then ''qui '' else []) @ c) echo s2"
        using nt by (simp add: w_def)
      moreover have "Execute ((if quietly then ''qui '' else []) @ c) echo \<in>
          set ((if streamout E then [PollerStart 1 None None None] else [])
              @ Execute ((if quietly then ''qui '' else []) @ c) echo # rest)"
        by simp
      ultimately show ?thesis by metis
    qed
    then obtain evs where e: "trace (snd w) = trace s2 @ evs"
      and m: "strip c \<notin> {''mata'', ''mata:'', ''python'', ''python:''} \<longrightarrow>
              Execute ((if quietly then ''qui '' else []) @ c) echo \<in> set evs"
      by blast
    have "run E cmd quietly echo inline ins s = run_finish E inl w \<and>
           trace (snd w) = trace s2 @ evs \<and>
           (length (splitlines cmd) = 1 \<and>
            strip (hd (splitlines cmd)) \<notin> {''mata'', ''mata:'', ''python'', ''python:''} \<longrightarrow>
              Execute ((if quietly then ''qui '' else []) @ hd (splitlines cmd)) echo \<in> set evs) \<and>
           (2 \<le> length (splitlines cmd) \<longrightarrow>
              Execute ((if quietly then ''qui include '' else ''include '') @ tempfile E (ntemp s))
                False \<in> set evs)"
      using r e m c by simp
    then show ?thesis by blast
  qed
  then show ?thesis using t2 by (metis append.assoc)
qed

section \<open>How the mata loop stages and reads its lines\<close>





section \<open>Return codes inside a session\<close>

text \<open>
  C1, as the code has it. Take a unit of a session whose execute call is not interrupted
  and returns a non-zero code and, with streaming on, whose poller join raises nothing.
  The worker raises nothing. For the unit \<open>run\<close> obtains and writes the temporary file;
  then, with streaming off, it executes the include, polls the buffer once and prints
  nothing when the code is 3000, and the interactive rendering of the polled chunk
  otherwise; with streaming on it starts the poller, executes, queues the code, joins and
  marks the poller done, printing nothing itself. In a \<open>mata\<close> session a code of 3000
  then leads to the continuation prompt, source and transcript retained, and any other
  non-zero code leaves the loop at once, with no further prompt and no closing separator.
  In a \<open>python\<close> session, for a unit the completeness check let through, every non-zero
  code, 3000 included, leaves the loop at once.
\<close>

theorem session_nonzero_return_code:
  assumes "incmd \<noteq> ''end''"
    and "\<not> interrupt E (nexec s)"
    and "streamout E \<longrightarrow> outputter_join E (Suc (nexec s)) = None"
    and "fst (engine E (nexec s)
                ((if quietly then ''qui include '' else ''include '') @ tempfile E (ntemp s))) \<noteq> 0"
    and "inprompt = ''>>> '' \<or> inprompt = ''... ''"
  shows
    "(let incl = (if quietly then ''qui include '' else ''include '') @ tempfile E (ntemp s);
          rc = fst (engine E (nexec s) incl);
          chunk = (case outbuf s @ snd (engine E (nexec s) incl) of [] \<Rightarrow> [] | c # cs \<Rightarrow> c);
          src = incmds1 @ incmd @ nl;
          tr = incmds2 @ mprompt @ incmd @ nl;
          w = staged_unit E quietly has_colon 2 input_cmd src tr s
      in fst w = None \<and>
         trace (snd w) =
           trace s @
             [GetTempFile (tempfile E (ntemp s)),
              WriteFile (tempfile E (ntemp s)) (input_cmd @ nl @ src @ ''end'')] @
             (if streamout E
              then [PollerStart 2 (Some tr) (Some has_colon) (Some 2), Execute incl False,
                    QueuePut rc, PollerJoin, PollerDone]
              else [Execute incl False, GetOutput] @
                   (if rc = 3000 then []
                    else [PrintOutput
                            (output_get_interactive_result E chunk (Some tr) has_colon 2) False])) \<and>
         (rc = 3000 \<longrightarrow>
            mata_loop E quietly has_colon input_cmd incmd incmds1 incmds2 mprompt (i # ins) s =
              mata_loop E quietly has_colon input_cmd (strip i) src tr ''> '' ins
                (emit (UserInput ''> '') (snd w))) \<and>
         (rc \<noteq> 3000 \<longrightarrow>
            mata_loop E quietly has_colon input_cmd incmd incmds1 incmds2 mprompt ins s =
              (None, snd w)))
     \<and>
     (compile_command E (incmds1 @ incmd) \<noteq> Incomplete \<longrightarrow>
      (let incl = (if quietly then ''qui include '' else ''include '') @ tempfile E (ntemp s);
           rc = fst (engine E (nexec s) incl);
           chunk = (case outbuf s @ snd (engine E (nexec s) incl) of [] \<Rightarrow> [] | c # cs \<Rightarrow> c);
           sfx = (if compile_command E (incmds1 @ incmd) = ParseError then [] else nl);
           src = incmds1 @ incmd @ sfx;
           tr = incmds2 @ inprompt @ incmd @ sfx;
           w = staged_unit E quietly has_colon 3 input_cmd src tr
                 (emit (CompileCommand (incmds1 @ incmd)) s)
       in fst w = None \<and>
          trace (snd w) =
            trace s @
              [CompileCommand (incmds1 @ incmd),
               GetTempFile (tempfile E (ntemp s)),
               WriteFile (tempfile E (ntemp s)) (input_cmd @ nl @ src @ ''end'')] @
              (if streamout E
               then [PollerStart 2 (Some tr) (Some has_colon) (Some 3), Execute incl False,
                     QueuePut rc, PollerJoin, PollerDone]
               else [Execute incl False, GetOutput] @
                    (if rc = 3000 then []
                     else [PrintOutput
                             (output_get_interactive_result E chunk (Some tr) has_colon 3) False])) \<and>
          python_loop E quietly has_colon input_cmd incmd incmds1 incmds2 inprompt ins s =
            (None, snd w)))"
proof -
  define incl where "incl = (if quietly then ''qui include '' else ''include '') @ tempfile E (ntemp s)"
  define rc where "rc = fst (engine E (nexec s) incl)"
  define chunk where
    "chunk = (case outbuf s @ snd (engine E (nexec s) incl) of [] \<Rightarrow> [] | c # cs \<Rightarrow> c)"
  define sfx where "sfx = (if compile_command E (incmds1 @ incmd) = ParseError then [] else nl)"
  define srcm where "srcm = incmds1 @ incmd @ nl"
  define trm where "trm = incmds2 @ mprompt @ incmd @ nl"
  define srcp where "srcp = incmds1 @ incmd @ sfx"
  define trp where "trp = incmds2 @ inprompt @ incmd @ sfx"
  define s1 where "s1 = emit (CompileCommand (incmds1 @ incmd)) s"
  define wm where "wm = staged_unit E quietly has_colon 2 input_cmd srcm trm s"
  define wp where "wp = staged_unit E quietly has_colon 3 input_cmd srcp trp s1"
  have nz: "rc \<noteq> 0"
    using assms(4) by (simp add: rc_def incl_def)
  have j: "streamout E \<and> \<not> interrupt E (nexec s) \<longrightarrow> outputter_join E (Suc (nexec s)) = None"
    using assms(3) by simp
  have s1f: "nexec s1 = nexec s" "ntemp s1 = ntemp s" "outbuf s1 = outbuf s"
    "trace s1 = trace s @ [CompileCommand (incmds1 @ incmd)]"
    by (simp_all add: s1_def)
  have m0: "fst wm = None"
    unfolding wm_def using j by (intro staged_unit_session_returns) simp_all
  have p0: "fst wp = None"
    unfolding wp_def using j s1f by (intro staged_unit_session_returns) simp_all
  have m1: "rc2 (snd wm) = rc"
    unfolding wm_def rc_def incl_def using assms(2) by (rule staged_unit_rc2)
  have p1: "rc2 (snd wp) = rc"
    unfolding wp_def rc_def incl_def
    using assms(2) staged_unit_rc2 [of E s1 quietly has_colon 3 input_cmd srcp trp] s1f by simp
  have m2: "trace (snd wm) =
           trace s @
             [GetTempFile (tempfile E (ntemp s)),
              WriteFile (tempfile E (ntemp s)) (input_cmd @ nl @ srcm @ ''end'')] @
             (if streamout E
              then [PollerStart 2 (Some trm) (Some has_colon) (Some 2), Execute incl False,
                    QueuePut rc, PollerJoin, PollerDone]
              else [Execute incl False, GetOutput] @
                   (if rc = 3000 then []
                    else [PrintOutput
                            (output_get_interactive_result E chunk (Some trm) has_colon 2) False]))"
    unfolding wm_def rc_def chunk_def incl_def
    using assms(2,3,4) by (intro staged_unit_nonzero_trace) simp_all
  have "trace (snd wp) =
           trace s1 @
             [GetTempFile (tempfile E (ntemp s)),
              WriteFile (tempfile E (ntemp s)) (input_cmd @ nl @ srcp @ ''end'')] @
             (if streamout E
              then [PollerStart 2 (Some trp) (Some has_colon) (Some 3), Execute incl False,
                    QueuePut rc, PollerJoin, PollerDone]
              else [Execute incl False, GetOutput] @
                   (if rc = 3000 then []
                    else [PrintOutput
                            (output_get_interactive_result E chunk (Some trp) has_colon 3) False]))"
    unfolding wp_def rc_def chunk_def incl_def
    using staged_unit_nonzero_trace [of 3 E s1 quietly has_colon input_cmd srcp trp] assms(2,3,4) s1f
    by simp
  then have p2: "trace (snd wp) =
            trace s @
              [CompileCommand (incmds1 @ incmd),
               GetTempFile (tempfile E (ntemp s)),
               WriteFile (tempfile E (ntemp s)) (input_cmd @ nl @ srcp @ ''end'')] @
              (if streamout E
               then [PollerStart 2 (Some trp) (Some has_colon) (Some 3), Execute incl False,
                     QueuePut rc, PollerJoin, PollerDone]
               else [Execute incl False, GetOutput] @
                    (if rc = 3000 then []
                     else [PrintOutput
                             (output_get_interactive_result E chunk (Some trp) has_colon 3) False]))"
    by (simp add: s1f)
  have c: "check_unit E (inprompt @ incmd) (incmds1 @ incmd) (incmds2 @ inprompt @ incmd) s =
             ((compile_command E (incmds1 @ incmd) = Incomplete, srcp, trp), s1)"
    by (simp add: check_unit_eval [OF assms(5)] sfx_def s1_def srcp_def trp_def)
  have m3: "rc = 3000 \<Longrightarrow>
      mata_loop E quietly has_colon input_cmd incmd incmds1 incmds2 mprompt (i # ins) s =
        mata_loop E quietly has_colon input_cmd (strip i) srcm trm ''> '' ins
          (emit (UserInput ''> '') (snd wm))"
    using assms(1) m0 m1
    by (subst mata_loop_unfold) (simp add: Let_def srcm_def [symmetric] trm_def [symmetric]
        wm_def [symmetric])
  have m4: "rc \<noteq> 3000 \<Longrightarrow>
      mata_loop E quietly has_colon input_cmd incmd incmds1 incmds2 mprompt ins s = (None, snd wm)"
    using assms(1) m0 m1 nz
    by (subst mata_loop_unfold) (simp add: Let_def srcm_def [symmetric] trm_def [symmetric]
        wm_def [symmetric])
  have p3: "compile_command E (incmds1 @ incmd) \<noteq> Incomplete \<Longrightarrow>
      python_loop E quietly has_colon input_cmd incmd incmds1 incmds2 inprompt ins s = (None, snd wp)"
    using assms(1) p0 p1 nz c
    by (subst python_loop_unfold) (simp add: Let_def wp_def [symmetric])
  show ?thesis
    unfolding Let_def incl_def [symmetric] rc_def [symmetric] chunk_def [symmetric]
      sfx_def [symmetric] srcm_def [symmetric] trm_def [symmetric] srcp_def [symmetric]
      trp_def [symmetric] s1_def [symmetric] wm_def [symmetric] wp_def [symmetric]
    using m0 m2 m3 m4 p0 p2 p3 by blast
qed

theorem session_nonzero_return_code_witness:
  "(''x = (1,'' \<noteq> ''end'' \<and>
   \<not> interrupt (E0\<lparr>engine := (\<lambda>n c. (3000, [''(1,'']))\<rparr>) (nexec s0) \<and>
   fst (engine (E0\<lparr>engine := (\<lambda>n c. (3000, [''(1,'']))\<rparr>) (nexec s0)
          ((if False then ''qui include '' else ''include '')
             @ tempfile (E0\<lparr>engine := (\<lambda>n c. (3000, [''(1,'']))\<rparr>) (ntemp s0))) = 3000 \<and>
   trace (snd (staged_unit (E0\<lparr>engine := (\<lambda>n c. (3000, [''(1,'']))\<rparr>) False False 2 ''mata''
                  ([] @ ''x = (1,'' @ nl) ([] @ '': '' @ ''x = (1,'' @ nl) s0)) =
     [GetTempFile ''tmp'', WriteFile ''tmp'' (''mata'' @ nl @ ''x = (1,'' @ nl @ ''end''),
      Execute ''include tmp'' False, GetOutput] \<and>
   mata_loop (E0\<lparr>engine := (\<lambda>n c. (3000, [''(1,'']))\<rparr>) False False ''mata'' ''x = (1,'' [] [] '': ''
       [''2)'', ''end''] s0 =
     mata_loop (E0\<lparr>engine := (\<lambda>n c. (3000, [''(1,'']))\<rparr>) False False ''mata'' (strip ''2)'')
       ([] @ ''x = (1,'' @ nl) ([] @ '': '' @ ''x = (1,'' @ nl) ''> '' [''end'']
       (emit (UserInput ''> '')
          (snd (staged_unit (E0\<lparr>engine := (\<lambda>n c. (3000, [''(1,'']))\<rparr>) False False 2 ''mata''
                  ([] @ ''x = (1,'' @ nl) ([] @ '': '' @ ''x = (1,'' @ nl) s0))) \<and>
   ''x = 1'' \<noteq> ''end'' \<and>
   fst (python_loop (E0\<lparr>engine := (\<lambda>n c. (3000, [''(1,'']))\<rparr>) False False ''python'' ''x = 1'' [] []
          ''>>> '' [''y = 2'', ''end''] s0) = None) \<and>
   trace (snd (run (E0\<lparr>engine := (\<lambda>n c. (3000, [''(1,''])),
                      tempfile := (\<lambda>n. if n = 0 then ''first.do'' else ''second.do'')\<rparr>)
                 ''mata'' True False (InlineBool False) [''x = (1,'', ''  2)  '', ''end''] s0)) =
     [ClearOutputBuffer, Print ''. mata'',
      DisplayLn ''{hline 49} mata (type {cmd:end} to exit) {hline}'', UserInput '': '',
      GetTempFile ''first.do'', WriteFile ''first.do'' (''mata'' @ nl @ ''x = (1,'' @ nl @ ''end''),
      Execute ''qui include first.do'' False, GetOutput, UserInput ''> '',
      GetTempFile ''second.do'',
      WriteFile ''second.do'' (''mata'' @ nl @ ''x = (1,'' @ nl @ ''2)'' @ nl @ ''end''),
      Execute ''qui include second.do'' False, GetOutput, UserInput ''> '', DisplayLn ''{hline}''] \<and>
   trace (snd (run (E0\<lparr>streamout := True, engine := (\<lambda>n c. (111, [''error''])),
                      tempfile := (\<lambda>n. ''unit.do'')\<rparr>) ''mata:'' False False (InlineBool False)
                 [''x = 1'', ''y = 2'', ''end''] s0)) =
     [ClearOutputBuffer, Print ''. mata:'',
      DisplayLn ''{hline 49} mata (type {cmd:end} to exit) {hline}'', UserInput '': '',
      GetTempFile ''unit.do'', WriteFile ''unit.do'' (''mata:'' @ nl @ ''x = 1'' @ nl @ ''end''),
      PollerStart 2 (Some ('': '' @ ''x = 1'' @ nl)) (Some True) (Some 2),
      Execute ''include unit.do'' False, QueuePut 111, PollerJoin, PollerDone]"
proof -
  have main: "''x = (1,'' \<noteq> ''end'' \<and>
   \<not> interrupt (E0\<lparr>engine := (\<lambda>n c. (3000, [''(1,'']))\<rparr>) (nexec s0) \<and>
   fst (engine (E0\<lparr>engine := (\<lambda>n c. (3000, [''(1,'']))\<rparr>) (nexec s0)
          ((if False then ''qui include '' else ''include '')
             @ tempfile (E0\<lparr>engine := (\<lambda>n c. (3000, [''(1,'']))\<rparr>) (ntemp s0))) = 3000 \<and>
   trace (snd (staged_unit (E0\<lparr>engine := (\<lambda>n c. (3000, [''(1,'']))\<rparr>) False False 2 ''mata''
                  ([] @ ''x = (1,'' @ nl) ([] @ '': '' @ ''x = (1,'' @ nl) s0)) =
     [GetTempFile ''tmp'', WriteFile ''tmp'' (''mata'' @ nl @ ''x = (1,'' @ nl @ ''end''),
      Execute ''include tmp'' False, GetOutput] \<and>
   mata_loop (E0\<lparr>engine := (\<lambda>n c. (3000, [''(1,'']))\<rparr>) False False ''mata'' ''x = (1,'' [] [] '': ''
       [''2)'', ''end''] s0 =
     mata_loop (E0\<lparr>engine := (\<lambda>n c. (3000, [''(1,'']))\<rparr>) False False ''mata'' (strip ''2)'')
       ([] @ ''x = (1,'' @ nl) ([] @ '': '' @ ''x = (1,'' @ nl) ''> '' [''end'']
       (emit (UserInput ''> '')
          (snd (staged_unit (E0\<lparr>engine := (\<lambda>n c. (3000, [''(1,'']))\<rparr>) False False 2 ''mata''
                  ([] @ ''x = (1,'' @ nl) ([] @ '': '' @ ''x = (1,'' @ nl) s0))) \<and>
   ''x = 1'' \<noteq> ''end'' \<and>
   fst (python_loop (E0\<lparr>engine := (\<lambda>n c. (3000, [''(1,'']))\<rparr>) False False ''python'' ''x = 1'' [] []
          ''>>> '' [''y = 2'', ''end''] s0) = None"
  proof -
    let ?E = "E0\<lparr>engine := (\<lambda>n c. (3000, [''(1,'']))\<rparr>"
    let ?incl = "(if False then ''qui include '' else ''include '') @ tempfile ?E (ntemp s0)"
    have h1: "''x = (1,'' \<noteq> ''end''" by simp
    have h2: "\<not> interrupt ?E (nexec s0)" by (simp add: E0_def)
    have h3: "streamout ?E \<longrightarrow> outputter_join ?E (Suc (nexec s0)) = None" by (simp add: E0_def)
    have rc: "fst (engine ?E (nexec s0) ?incl) = 3000" by simp
    have h4: "fst (engine ?E (nexec s0) ?incl) \<noteq> 0" by simp
    have h5: "''>>> '' = ''>>> '' \<or> ''>>> '' = ''... ''" by simp
    have h6: "''x = 1'' \<noteq> ''end''" by simp
    have cc: "compile_command ?E ([] @ ''x = 1'') \<noteq> Incomplete" by (simp add: E0_def)
    note t = session_nonzero_return_code [OF h1 h2 h3 h4 h5, unfolded Let_def,
        where has_colon = False and input_cmd = "''mata''"
          and ?incmds1.0 = "[]" and ?incmds2.0 = "[]" and mprompt = "'': ''"
          and i = "''2)''" and ins = "[''end'']"]
    note u = session_nonzero_return_code [OF h6 h2 h3 h4 h5, unfolded Let_def,
        where has_colon = False and input_cmd = "''python''"
          and ?incmds1.0 = "[]" and ?incmds2.0 = "[]" and ins = "[''y = 2'', ''end'']"]
    have c1: "mata_loop ?E False False ''mata'' ''x = (1,'' [] [] '': '' [''2)'', ''end''] s0 =
       mata_loop ?E False False ''mata'' (strip ''2)'')
         ([] @ ''x = (1,'' @ nl) ([] @ '': '' @ ''x = (1,'' @ nl) ''> '' [''end'']
         (emit (UserInput ''> '')
            (snd (staged_unit ?E False False 2 ''mata''
                    ([] @ ''x = (1,'' @ nl) ([] @ '': '' @ ''x = (1,'' @ nl) s0)))"
      using t rc by blast
    have c2: "trace (snd (staged_unit ?E False False 2 ''mata''
                    ([] @ ''x = (1,'' @ nl) ([] @ '': '' @ ''x = (1,'' @ nl) s0)) =
       [GetTempFile ''tmp'', WriteFile ''tmp'' (''mata'' @ nl @ ''x = (1,'' @ nl @ ''end''),
        Execute ''include tmp'' False, GetOutput]"
      using t by (simp add: E0_def s0_def)
    have c3: "fst (python_loop ?E False False ''python'' ''x = 1'' [] [] ''>>> '' [''y = 2'', ''end''] s0) = None"
      using u cc by simp
    show ?thesis
      by (rule conjI [OF h1 conjI [OF h2 conjI [OF rc conjI [OF c2 conjI [OF c1 conjI [OF h6 c3]]]]]])
  qed
  have k1: "trace (snd (run (E0\<lparr>engine := (\<lambda>n c. (3000, [''(1,''])),
                      tempfile := (\<lambda>n. if n = 0 then ''first.do'' else ''second.do'')\<rparr>)
                 ''mata'' True False (InlineBool False) [''x = (1,'', ''  2)  '', ''end''] s0)) =
     [ClearOutputBuffer, Print ''. mata'',
      DisplayLn ''{hline 49} mata (type {cmd:end} to exit) {hline}'', UserInput '': '',
      GetTempFile ''first.do'', WriteFile ''first.do'' (''mata'' @ nl @ ''x = (1,'' @ nl @ ''end''),
      Execute ''qui include first.do'' False, GetOutput, UserInput ''> '',
      GetTempFile ''second.do'',
      WriteFile ''second.do'' (''mata'' @ nl @ ''x = (1,'' @ nl @ ''2)'' @ nl @ ''end''),
      Execute ''qui include second.do'' False, GetOutput, UserInput ''> '', DisplayLn ''{hline}'']"
    by code_simp
  have k2: "trace (snd (run (E0\<lparr>streamout := True, engine := (\<lambda>n c. (111, [''error''])),
                      tempfile := (\<lambda>n. ''unit.do'')\<rparr>) ''mata:'' False False (InlineBool False)
                 [''x = 1'', ''y = 2'', ''end''] s0)) =
     [ClearOutputBuffer, Print ''. mata:'',
      DisplayLn ''{hline 49} mata (type {cmd:end} to exit) {hline}'', UserInput '': '',
      GetTempFile ''unit.do'', WriteFile ''unit.do'' (''mata:'' @ nl @ ''x = 1'' @ nl @ ''end''),
      PollerStart 2 (Some ('': '' @ ''x = 1'' @ nl)) (Some True) (Some 2),
      Execute ''include unit.do'' False, QueuePut 111, PollerJoin, PollerDone]"
    by code_simp
  show ?thesis
    by (rule conjI [OF main conjI [OF k1 k2]])
qed

text \<open>The claim C1 as stated fails: a return code of 111 in a \<open>mata\<close> session, and one of
  3000 in a \<open>python\<close> session, end the session; the lines still to come are never read.\<close>

theorem session_left_on_nonzero_code:
  "trace (snd (run (E0\<lparr>engine := (\<lambda>n c. (111, [''error'']))\<rparr>) ''mata'' False False (InlineBool False)
                 [''x = 1'', ''y = 2'', ''end''] s0)) =
     [ClearOutputBuffer, Print ''. mata'',
      DisplayLn ''{hline 49} mata (type {cmd:end} to exit) {hline}'', UserInput '': '',
      GetTempFile ''tmp'', WriteFile ''tmp'' (''mata'' @ nl @ ''x = 1'' @ nl @ ''end''),
      Execute ''include tmp'' False, GetOutput, PrintOutput ''error'' False] \<and>
   trace (snd (run (E0\<lparr>engine := (\<lambda>n c. (3000, []))\<rparr>) ''python'' False False (InlineBool False)
                 [''x = 1'', ''y = 2'', ''end''] s0)) =
     [ClearOutputBuffer, Print ''. python'',
      DisplayLn ''{hline 47} python (type {cmd:end} to exit) {hline}'', UserInput ''>>> '',
      CompileCommand ''x = 1'',
      GetTempFile ''tmp'', WriteFile ''tmp'' (''python'' @ nl @ ''x = 1'' @ nl @ ''end''),
      Execute ''include tmp'' False, GetOutput]"
  by code_simp

section \<open>Return code 3000 outside a session\<close>

text \<open>
  C2. With streaming off, a multi-line command whose include returns 3000 makes \<open>run\<close>
  return normally, with no error and nothing printed, although the same return code on a
  single-line command raises SystemError with the captured output.
\<close>

theorem batch_continuation_code_swallowed:
  "run (E0\<lparr>engine := (\<lambda>n c. (3000, [''unexpected end of line'']))\<rparr>)
       (''mata:'' @ nl @ ''x = (1,'') False False (InlineBool False) [] s0 =
     (None,
      \<lparr>trace = [ClearOutputBuffer, GetTempFile ''tmp'',
                WriteFile ''tmp'' (''mata:'' @ nl @ ''x = (1,''),
                Execute ''include tmp'' False, GetOutput],
       outbuf = [], nexec = 1, ntemp = 1, rc2 = 3000, gr_display_func = False\<rparr>) \<and>
   fst (run (E0\<lparr>engine := (\<lambda>n c. (3000, [''unexpected end of line'']))\<rparr>)
          ''mata: x = (1,'' False False (InlineBool False) [] s0) =
     Some (SystemError ''unexpected end of line'')"
  by code_simp

section \<open>Single-line commands\<close>

text \<open>
  C3, as the code has it. Take a single-line command that is no session trigger, with
  \<open>inline\<close> None or a boolean, the toggle \<open>qui _gr_list on\<close> that \<open>run\<close> issues first when
  \<open>inline\<close> resolves to true not being interrupted. \<open>run\<close> clears the output buffer
  exactly once, at its start, and issues exactly one execute call for the command
  (prefixed with \<open>qui\<close> when quietly). When \<open>inline\<close> resolves to false nothing but the
  start of the poller comes between the clear and that call; when it resolves to true the
  toggle comes between them. Afterwards the buffer is not cleared again, and the only
  further execute call is \<open>qui _gr_list off\<close>, issued when \<open>inline\<close> resolves to true and
  the command raised no SystemError.
\<close>

theorem single_line_executes:
  assumes "splitlines cmd = [c]"
    and "strip c \<notin> {''mata'', ''mata:'', ''python'', ''python:''}"
    and "resolve_inline E inline = Inr inl"
    and "\<not> (inl \<and> interrupt E (nexec s))"
  shows "\<exists>rest.
           trace (snd (run E cmd quietly echo inline ins s)) =
             trace s @ [ClearOutputBuffer]
               @ (if inl then [Execute ''qui _gr_list on'' False] else [])
               @ (if streamout E then [PollerStart 1 None None None] else [])
               @ [Execute ((if quietly then ''qui '' else []) @ c) echo] @ rest
         \<and> ClearOutputBuffer \<notin> set rest
         \<and> filter is_Execute rest =
             (if inl \<and> \<not> is_SystemError (fst (run E cmd quietly echo inline ins s))
              then [Execute ''qui _gr_list off'' False] else [])"
proof -
  define s2 where "s2 = (if inl then snd (gr_list E ''on'' (StataSO_ClearOutputBuffer s))
                         else StataSO_ClearOutputBuffer s)"
  define w where "w = stata_wrk1 E ((if quietly then ''qui '' else []) @ c) echo s2"
  have r: "run E cmd quietly echo inline ins s = run_finish E inl w"
    unfolding w_def s2_def by (rule run_single_line [OF assms(1) assms(3) assms(2) assms(4)])
  have t2: "trace s2 = trace s @ [ClearOutputBuffer]
               @ (if inl then [Execute ''qui _gr_list on'' False] else [])"
    by (simp add: s2_def StataSO_ClearOutputBuffer_def)
  obtain rest where w1: "trace (snd w) =
        trace s2 @ (if streamout E then [PollerStart 1 None None None] else [])
          @ Execute ((if quietly then ''qui '' else []) @ c) echo # rest"
    and w2: "list_all passive_event rest"
    unfolding w_def using stata_wrk1_trace by blast
  have w3: "filter is_Execute rest = []"
    using w2 by (rule passive_no_Execute)
  have w4: "ClearOutputBuffer \<notin> set rest"
    using w2 by (rule passive_no_Clear)
  have w5: "fst w = None \<or> is_SystemError (fst w)"
    unfolding w_def by (rule stata_wrk1_result)
  have f: "is_SystemError (fst (run E cmd quietly echo inline ins s)) \<longleftrightarrow> fst w \<noteq> None"
    using w5 by (auto simp: r run_finish_fst split: option.splits)
  let ?fin = "(if inl \<and> fst w = None
        then (if stipython E \<ge> 3 then [GrDisplay] else []) @ [Execute ''qui _gr_list off'' False]
        else [])"
  have "trace (snd (run E cmd quietly echo inline ins s)) =
             trace s @ [ClearOutputBuffer]
               @ (if inl then [Execute ''qui _gr_list on'' False] else [])
               @ (if streamout E then [PollerStart 1 None None None] else [])
               @ [Execute ((if quietly then ''qui '' else []) @ c) echo] @ (rest @ ?fin)"
    by (simp add: r run_finish_trace w1 t2)
  moreover have "filter is_Execute (rest @ ?fin) =
             (if inl \<and> \<not> is_SystemError (fst (run E cmd quietly echo inline ins s))
              then [Execute ''qui _gr_list off'' False] else [])"
    by (simp add: f w3)
  moreover have "ClearOutputBuffer \<notin> set (rest @ ?fin)"
    using w4 by simp
  ultimately show ?thesis by blast
qed

theorem single_line_executes_witness:
  "(splitlines ''display 1'' = [''display 1''] \<and>
   strip ''display 1'' \<notin> {''mata'', ''mata:'', ''python'', ''python:''} \<and>
   resolve_inline E0 (InlineBool True) = Inr True \<and>
   \<not> (True \<and> interrupt E0 (nexec s0)) \<and>
   (\<exists>rest.
      trace (snd (run E0 ''display 1'' True False (InlineBool True) [] s0)) =
        trace s0 @ [ClearOutputBuffer]
          @ (if True then [Execute ''qui _gr_list on'' False] else [])
          @ (if streamout E0 then [PollerStart 1 None None None] else [])
          @ [Execute ((if True then ''qui '' else []) @ ''display 1'') False] @ rest
    \<and> ClearOutputBuffer \<notin> set rest
    \<and> filter is_Execute rest =
        (if True \<and> \<not> is_SystemError (fst (run E0 ''display 1'' True False (InlineBool True) [] s0))
         then [Execute ''qui _gr_list off'' False] else []))) \<and>
   trace (snd (run E0 ''display 1'' True False (InlineBool True) [] s0)) =
     [ClearOutputBuffer, Execute ''qui _gr_list on'' False, Execute ''qui display 1'' False,
      GetOutput, Execute ''qui _gr_list off'' False] \<and>
   trace (snd (run (E0\<lparr>streamout := True\<rparr>) ''graph twoway'' False True (InlineBool True) [] s0)) =
     [ClearOutputBuffer, Execute ''qui _gr_list on'' False, PollerStart 1 None None None,
      Execute ''graph twoway'' True, QueuePut 0, PollerJoin, PollerDone,
      Execute ''qui _gr_list off'' False]"
proof -
  have main: "splitlines ''display 1'' = [''display 1''] \<and>
   strip ''display 1'' \<notin> {''mata'', ''mata:'', ''python'', ''python:''} \<and>
   resolve_inline E0 (InlineBool True) = Inr True \<and>
   \<not> (True \<and> interrupt E0 (nexec s0)) \<and>
   (\<exists>rest.
      trace (snd (run E0 ''display 1'' True False (InlineBool True) [] s0)) =
        trace s0 @ [ClearOutputBuffer]
          @ (if True then [Execute ''qui _gr_list on'' False] else [])
          @ (if streamout E0 then [PollerStart 1 None None None] else [])
          @ [Execute ((if True then ''qui '' else []) @ ''display 1'') False] @ rest
    \<and> ClearOutputBuffer \<notin> set rest
    \<and> filter is_Execute rest =
        (if True \<and> \<not> is_SystemError (fst (run E0 ''display 1'' True False (InlineBool True) [] s0))
         then [Execute ''qui _gr_list off'' False] else []))"
  proof -
    have h1: "splitlines ''display 1'' = [''display 1'']"
      by (simp add: splitlines_def is_line_boundary_def)
    have h2: "strip ''display 1'' \<notin> {''mata'', ''mata:'', ''python'', ''python:''}"
      by (simp add: strip_def isspace_def)
    have h3: "resolve_inline E0 (InlineBool True) = Inr True"
      by (simp add: resolve_inline_def)
    have h4: "\<not> (True \<and> interrupt E0 (nexec s0))"
      by (simp add: E0_def)
    show ?thesis
      by (rule conjI [OF h1 conjI [OF h2 conjI [OF h3 conjI [OF h4
            single_line_executes [OF h1 h2 h3 h4, of True False "[]"]]]]])
  qed
  have k1: "trace (snd (run E0 ''display 1'' True False (InlineBool True) [] s0)) =
     [ClearOutputBuffer, Execute ''qui _gr_list on'' False, Execute ''qui display 1'' False,
      GetOutput, Execute ''qui _gr_list off'' False]"
    by code_simp
  have k2: "trace (snd (run (E0\<lparr>streamout := True\<rparr>) ''graph twoway'' False True (InlineBool True) [] s0)) =
     [ClearOutputBuffer, Execute ''qui _gr_list on'' False, PollerStart 1 None None None,
      Execute ''graph twoway'' True, QueuePut 0, PollerJoin, PollerDone,
      Execute ''qui _gr_list off'' False]"
    by code_simp
  show ?thesis
    by (rule conjI [OF main conjI [OF k1 k2]])
qed

text \<open>The claim C3 as stated fails when \<open>inline\<close> is true (an execute call stands between
  the clear and the command's execute call), when the user interrupts that toggle (the
  command is never executed) and when \<open>inline\<close> is no boolean (TypeError, nothing done).\<close>

theorem single_line_toggle_between_clear_and_execute:
  "trace (snd (run E0 ''display 1'' False False (InlineBool True) [] s0)) =
     [ClearOutputBuffer, Execute ''qui _gr_list on'' False, Execute ''display 1'' False,
      GetOutput, Execute ''qui _gr_list off'' False] \<and>
   run (E0\<lparr>interrupt := (\<lambda>n. n = 0)\<rparr>) ''display 2'' False False (InlineBool True) [] s0 =
     (Some KeyboardInterrupt,
      \<lparr>trace = [ClearOutputBuffer, Execute ''qui _gr_list on'' False],
       outbuf = [], nexec = 1, ntemp = 0, rc2 = 0, gr_display_func = False\<rparr>) \<and>
   run E0 ''display 3'' False False InlineOther [] s0 =
     (Some (TypeError ''inline must be a boolean value''), s0)"
  by code_simp

section \<open>Multi-line commands\<close>

text \<open>
  C4, as the code has it. Take a command text of at least two lines, with \<open>inline\<close> None
  or a boolean, the toggle \<open>qui _gr_list on\<close> that \<open>run\<close> issues first when \<open>inline\<close>
  resolves to true not being interrupted. \<open>run\<close> obtains exactly one temporary file,
  writes the command text to it as it is, once, and issues exactly one execute call of
  \<open>include\<close> (\<open>qui include\<close> when quietly) followed by the name of that file; the only
  other execute calls are the two graph toggles.
\<close>

theorem multi_line_staged_once:
  assumes "2 \<le> length (splitlines cmd)"
    and "resolve_inline E inline = Inr inl"
    and "\<not> (inl \<and> interrupt E (nexec s))"
  shows "\<exists>rest.
           trace (snd (run E cmd quietly echo inline ins s)) =
             trace s @ [ClearOutputBuffer]
               @ (if inl then [Execute ''qui _gr_list on'' False] else [])
               @ [GetTempFile (tempfile E (ntemp s)), WriteFile (tempfile E (ntemp s)) cmd]
               @ (if streamout E then [PollerStart 2 None (Some False) (Some 1)] else [])
               @ [Execute ((if quietly then ''qui include '' else ''include '')
                             @ tempfile E (ntemp s)) False]
               @ rest
         \<and> filter is_GetTempFile rest = []
         \<and> filter is_WriteFile rest = []
         \<and> filter is_Execute rest =
             (if inl \<and> \<not> is_SystemError (fst (run E cmd quietly echo inline ins s))
              then [Execute ''qui _gr_list off'' False] else [])"
proof -
  define s2 where "s2 = (if inl then snd (gr_list E ''on'' (StataSO_ClearOutputBuffer s))
                         else StataSO_ClearOutputBuffer s)"
  define incl where "incl = (if quietly then ''qui include '' else ''include '') @ tempfile E (ntemp s)"
  define s4 where "s4 = emit (WriteFile (tempfile E (ntemp s)) cmd) (snd (getTempFile E s2))"
  define w where "w = stata_wrk2 E incl None False 1 s4"
  have r: "run E cmd quietly echo inline ins s = run_finish E inl w"
    unfolding w_def s4_def s2_def incl_def by (rule run_multi_line [OF assms])
  have n2: "ntemp s2 = ntemp s"
    by (simp add: s2_def StataSO_ClearOutputBuffer_def)
  have t2: "trace s2 = trace s @ [ClearOutputBuffer]
               @ (if inl then [Execute ''qui _gr_list on'' False] else [])"
    by (simp add: s2_def StataSO_ClearOutputBuffer_def)
  have t4: "trace s4 = trace s2
               @ [GetTempFile (tempfile E (ntemp s)), WriteFile (tempfile E (ntemp s)) cmd]"
    by (simp add: s4_def n2)
  obtain rest where w1: "trace (snd w) =
        trace s4 @ (if streamout E then [PollerStart 2 None (Some False) (Some 1)] else [])
          @ Execute incl False # rest"
    and w2: "list_all passive_event rest"
    unfolding w_def using stata_wrk2_trace by blast
  have w5: "fst w = None \<or> is_SystemError (fst w)"
    unfolding w_def by (rule stata_wrk2_result)
  have f: "is_SystemError (fst (run E cmd quietly echo inline ins s)) \<longleftrightarrow> fst w \<noteq> None"
    using w5 by (auto simp: r run_finish_fst split: option.splits)
  let ?fin = "(if inl \<and> fst w = None
        then (if stipython E \<ge> 3 then [GrDisplay] else []) @ [Execute ''qui _gr_list off'' False]
        else [])"
  have "trace (snd (run E cmd quietly echo inline ins s)) =
             trace s @ [ClearOutputBuffer]
               @ (if inl then [Execute ''qui _gr_list on'' False] else [])
               @ [GetTempFile (tempfile E (ntemp s)), WriteFile (tempfile E (ntemp s)) cmd]
               @ (if streamout E then [PollerStart 2 None (Some False) (Some 1)] else [])
               @ [Execute ((if quietly then ''qui include '' else ''include '')
                             @ tempfile E (ntemp s)) False]
               @ (rest @ ?fin)"
    by (simp add: r run_finish_trace w1 t4 t2 incl_def)
  moreover have "filter is_Execute (rest @ ?fin) =
             (if inl \<and> \<not> is_SystemError (fst (run E cmd quietly echo inline ins s))
              then [Execute ''qui _gr_list off'' False] else [])"
    by (simp add: f passive_no_Execute [OF w2])
  moreover have "filter is_GetTempFile (rest @ ?fin) = []"
    by (simp add: passive_no_GetTempFile [OF w2])
  moreover have "filter is_WriteFile (rest @ ?fin) = []"
    by (simp add: passive_no_WriteFile [OF w2])
  ultimately show ?thesis by blast
qed

theorem multi_line_staged_once_witness:
  "(2 \<le> length (splitlines (''line1'' @ nl @ ''line2'' @ nl @ ''line3'')) \<and>
   resolve_inline E0 InlineNone = Inr False \<and>
   \<not> (False \<and> interrupt E0 (nexec s0)) \<and>
   (\<exists>rest.
      trace (snd (run E0 (''line1'' @ nl @ ''line2'' @ nl @ ''line3'') True False InlineNone [] s0)) =
        trace s0 @ [ClearOutputBuffer]
          @ (if False then [Execute ''qui _gr_list on'' False] else [])
          @ [GetTempFile (tempfile E0 (ntemp s0)),
             WriteFile (tempfile E0 (ntemp s0)) (''line1'' @ nl @ ''line2'' @ nl @ ''line3'')]
          @ (if streamout E0 then [PollerStart 2 None (Some False) (Some 1)] else [])
          @ [Execute ((if True then ''qui include '' else ''include '') @ tempfile E0 (ntemp s0)) False]
          @ rest
    \<and> filter is_GetTempFile rest = []
    \<and> filter is_WriteFile rest = []
    \<and> filter is_Execute rest =
        (if False \<and> \<not> is_SystemError (fst (run E0 (''line1'' @ nl @ ''line2'' @ nl @ ''line3'')
                                             True False InlineNone [] s0))
         then [Execute ''qui _gr_list off'' False] else []))) \<and>
   trace (snd (run (E0\<lparr>tempfile := (\<lambda>n. ''stage.do'')\<rparr>) (''line1'' @ nl @ ''line2'' @ nl @ ''line3'')
                 True False InlineNone [] s0)) =
     [ClearOutputBuffer, GetTempFile ''stage.do'',
      WriteFile ''stage.do'' (''line1'' @ nl @ ''line2'' @ nl @ ''line3''),
      Execute ''qui include stage.do'' False, GetOutput] \<and>
   trace (snd (run (E0\<lparr>tempfile := (\<lambda>n. ''batch.do'')\<rparr>) (''line1'' @ nl @ ''line2'') False False
                 (InlineBool True) [] s0)) =
     [ClearOutputBuffer, Execute ''qui _gr_list on'' False, GetTempFile ''batch.do'',
      WriteFile ''batch.do'' (''line1'' @ nl @ ''line2''), Execute ''include batch.do'' False,
      GetOutput, Execute ''qui _gr_list off'' False]"
proof -
  have main: "2 \<le> length (splitlines (''line1'' @ nl @ ''line2'' @ nl @ ''line3'')) \<and>
   resolve_inline E0 InlineNone = Inr False \<and>
   \<not> (False \<and> interrupt E0 (nexec s0)) \<and>
   (\<exists>rest.
      trace (snd (run E0 (''line1'' @ nl @ ''line2'' @ nl @ ''line3'') True False InlineNone [] s0)) =
        trace s0 @ [ClearOutputBuffer]
          @ (if False then [Execute ''qui _gr_list on'' False] else [])
          @ [GetTempFile (tempfile E0 (ntemp s0)),
             WriteFile (tempfile E0 (ntemp s0)) (''line1'' @ nl @ ''line2'' @ nl @ ''line3'')]
          @ (if streamout E0 then [PollerStart 2 None (Some False) (Some 1)] else [])
          @ [Execute ((if True then ''qui include '' else ''include '') @ tempfile E0 (ntemp s0)) False]
          @ rest
    \<and> filter is_GetTempFile rest = []
    \<and> filter is_WriteFile rest = []
    \<and> filter is_Execute rest =
        (if False \<and> \<not> is_SystemError (fst (run E0 (''line1'' @ nl @ ''line2'' @ nl @ ''line3'')
                                             True False InlineNone [] s0))
         then [Execute ''qui _gr_list off'' False] else []))"
  proof -
    have h1: "2 \<le> length (splitlines (''line1'' @ nl @ ''line2'' @ nl @ ''line3''))"
      by (simp add: splitlines_def is_line_boundary_def)
    have h2: "resolve_inline E0 InlineNone = Inr False"
      by (simp add: resolve_inline_def E0_def)
    have h3: "\<not> (False \<and> interrupt E0 (nexec s0))"
      by simp
    show ?thesis
      by (rule conjI [OF h1 conjI [OF h2 conjI [OF h3
            multi_line_staged_once [OF h1 h2 h3, of True False "[]"]]]])
  qed
  have k1: "trace (snd (run (E0\<lparr>tempfile := (\<lambda>n. ''stage.do'')\<rparr>) (''line1'' @ nl @ ''line2'' @ nl @ ''line3'')
                 True False InlineNone [] s0)) =
     [ClearOutputBuffer, GetTempFile ''stage.do'',
      WriteFile ''stage.do'' (''line1'' @ nl @ ''line2'' @ nl @ ''line3''),
      Execute ''qui include stage.do'' False, GetOutput]"
    by code_simp
  have k2: "trace (snd (run (E0\<lparr>tempfile := (\<lambda>n. ''batch.do'')\<rparr>) (''line1'' @ nl @ ''line2'') False False
                 (InlineBool True) [] s0)) =
     [ClearOutputBuffer, Execute ''qui _gr_list on'' False, GetTempFile ''batch.do'',
      WriteFile ''batch.do'' (''line1'' @ nl @ ''line2''), Execute ''include batch.do'' False,
      GetOutput, Execute ''qui _gr_list off'' False]"
    by code_simp
  show ?thesis
    by (rule conjI [OF main conjI [OF k1 k2]])
qed

text \<open>The claim C4 as stated fails when \<open>inline\<close> is no boolean and when the user interrupts
  the toggle: nothing is staged and nothing is included.\<close>

theorem multi_line_nothing_staged:
  "run E0 (''line1'' @ nl @ ''line2'') False False InlineOther [] s0 =
     (Some (TypeError ''inline must be a boolean value''), s0) \<and>
   run (E0\<lparr>interrupt := (\<lambda>n. n = 0)\<rparr>) (''line1'' @ nl @ ''line2'') False False (InlineBool True) [] s0 =
     (Some KeyboardInterrupt,
      \<lparr>trace = [ClearOutputBuffer, Execute ''qui _gr_list on'' False],
       outbuf = [], nexec = 1, ntemp = 0, rc2 = 0, gr_display_func = False\<rparr>)"
  by code_simp

section \<open>The completeness check of the script session\<close>



section \<open>The escape prefix\<close>

text \<open>
  C6. In a \<open>python\<close> session the line \<open>stata: display (\<close> is handed to the completeness
  check like any other line; when the check reports it incomplete the session prompts for
  a continuation line and executes nothing.
\<close>

theorem escape_prefix_line_is_checked:
  "run (E0\<lparr>compile_command := (\<lambda>src. if src = ''stata: display ('' then Incomplete else Code)\<rparr>)
       ''python'' False False (InlineBool False) [''stata: display ('', ''end''] s0 =
     (None,
      \<lparr>trace = [ClearOutputBuffer, Print ''. python'',
                DisplayLn ''{hline 47} python (type {cmd:end} to exit) {hline}'',
                UserInput ''>>> '', CompileCommand ''stata: display ('', UserInput ''... '',
                DisplayLn ''{hline}''],
       outbuf = [], nexec = 0, ntemp = 0, rc2 = 0, gr_display_func = False\<rparr>)"
  by code_simp

section \<open>The graph toggle\<close>

text \<open>
  C7, as the code has it. When \<open>inline\<close> resolves to true and the command has at least
  one line, the execute call \<open>qui _gr_list on\<close> is issued right after the buffer is
  cleared, before anything of the command runs, on every outcome of \<open>run\<close>. When \<open>run\<close>
  returns without raising, \<open>qui _gr_list off\<close> is the last thing it does, and the execute
  call of a command that opens no session lies between the two toggles.
\<close>

theorem inline_toggled_on_always_off_on_return:
  assumes "resolve_inline E inline = Inr True"
    and "splitlines cmd \<noteq> []"
  shows "(\<exists>rest. trace (snd (run E cmd quietly echo inline ins s)) =
                  trace s @ [ClearOutputBuffer, Execute ''qui _gr_list on'' False] @ rest) \<and>
         (fst (run E cmd quietly echo inline ins s) = None \<longrightarrow>
            (\<exists>mid. trace (snd (run E cmd quietly echo inline ins s)) =
                     trace s @ [ClearOutputBuffer, Execute ''qui _gr_list on'' False] @ mid
                       @ [Execute ''qui _gr_list off'' False] \<and>
                   (length (splitlines cmd) = 1 \<and>
                    strip (hd (splitlines cmd)) \<notin> {''mata'', ''mata:'', ''python'', ''python:''} \<longrightarrow>
                      Execute ((if quietly then ''qui '' else []) @ hd (splitlines cmd)) echo
                        \<in> set mid) \<and>
                   (2 \<le> length (splitlines cmd) \<longrightarrow>
                      Execute ((if quietly then ''qui include '' else ''include '')
                                 @ tempfile E (ntemp s)) False \<in> set mid)))"
proof (cases "interrupt E (nexec s)")
  case True
  have "run E cmd quietly echo inline ins s =
           (Some KeyboardInterrupt, snd (gr_list E ''on'' (StataSO_ClearOutputBuffer s)))"
    by (rule run_toggle_interrupted [OF assms(2) assms(1) True])
  then show ?thesis
    by (simp add: StataSO_ClearOutputBuffer_def)
next
  case False
  then have ni: "\<not> (True \<and> interrupt E (nexec s))" by simp
  have "\<exists>w evs. run E cmd quietly echo inline ins s = run_finish E True w \<and>
           trace (snd w) =
             trace s @ [ClearOutputBuffer] @ [Execute ''qui _gr_list on'' False] @ evs \<and>
           (length (splitlines cmd) = 1 \<and>
            strip (hd (splitlines cmd)) \<notin> {''mata'', ''mata:'', ''python'', ''python:''} \<longrightarrow>
              Execute ((if quietly then ''qui '' else []) @ hd (splitlines cmd)) echo \<in> set evs) \<and>
           (2 \<le> length (splitlines cmd) \<longrightarrow>
              Execute ((if quietly then ''qui include '' else ''include '') @ tempfile E (ntemp s))
                False \<in> set evs)"
    using run_body [OF assms(2) assms(1) ni, of quietly echo ins] by (simp only: if_True)
  then obtain w evs where r: "run E cmd quietly echo inline ins s = run_finish E True w"
    and t: "trace (snd w) = trace s @ [ClearOutputBuffer] @ [Execute ''qui _gr_list on'' False] @ evs"
    and m1: "length (splitlines cmd) = 1 \<and>
            strip (hd (splitlines cmd)) \<notin> {''mata'', ''mata:'', ''python'', ''python:''} \<longrightarrow>
              Execute ((if quietly then ''qui '' else []) @ hd (splitlines cmd)) echo \<in> set evs"
    and m2: "2 \<le> length (splitlines cmd) \<longrightarrow>
              Execute ((if quietly then ''qui include '' else ''include '') @ tempfile E (ntemp s))
                False \<in> set evs"
    by blast
  have a: "\<exists>rest. trace (snd (run E cmd quietly echo inline ins s)) =
                  trace s @ [ClearOutputBuffer, Execute ''qui _gr_list on'' False] @ rest"
    by (simp add: r run_finish_trace t)
  have b: "\<exists>mid. trace (snd (run E cmd quietly echo inline ins s)) =
                     trace s @ [ClearOutputBuffer, Execute ''qui _gr_list on'' False] @ mid
                       @ [Execute ''qui _gr_list off'' False] \<and>
                   (length (splitlines cmd) = 1 \<and>
                    strip (hd (splitlines cmd)) \<notin> {''mata'', ''mata:'', ''python'', ''python:''} \<longrightarrow>
                      Execute ((if quietly then ''qui '' else []) @ hd (splitlines cmd)) echo
                        \<in> set mid) \<and>
                   (2 \<le> length (splitlines cmd) \<longrightarrow>
                      Execute ((if quietly then ''qui include '' else ''include '')
                                 @ tempfile E (ntemp s)) False \<in> set mid)"
    if n: "fst (run E cmd quietly echo inline ins s) = None"
  proof -
    have fw: "fst w = None"
      using n by (simp add: r run_finish_fst split: option.splits)
    have "trace (snd (run E cmd quietly echo inline ins s)) =
      trace s @ [ClearOutputBuffer, Execute ''qui _gr_list on'' False]
        @ (evs @ (if stipython E \<ge> 3 then [GrDisplay] else []))
        @ [Execute ''qui _gr_list off'' False]"
      using fw by (simp add: r run_finish_trace t)
    moreover have "length (splitlines cmd) = 1 \<and>
            strip (hd (splitlines cmd)) \<notin> {''mata'', ''mata:'', ''python'', ''python:''} \<longrightarrow>
              Execute ((if quietly then ''qui '' else []) @ hd (splitlines cmd)) echo
                \<in> set (evs @ (if stipython E \<ge> 3 then [GrDisplay] else []))"
      using m1 by simp
    moreover have "2 \<le> length (splitlines cmd) \<longrightarrow>
              Execute ((if quietly then ''qui include '' else ''include '') @ tempfile E (ntemp s))
                False \<in> set (evs @ (if stipython E \<ge> 3 then [GrDisplay] else []))"
      using m2 by simp
    ultimately show ?thesis by blast
  qed
  show ?thesis using a b by blast
qed

theorem inline_toggled_on_always_off_on_return_witness:
  "(resolve_inline E0 (InlineBool True) = Inr True \<and>
   splitlines ''display 1'' \<noteq> [] \<and>
   fst (run E0 ''display 1'' False False (InlineBool True) [] s0) = None \<and>
   (\<exists>mid. trace (snd (run E0 ''display 1'' False False (InlineBool True) [] s0)) =
           trace s0 @ [ClearOutputBuffer, Execute ''qui _gr_list on'' False] @ mid
             @ [Execute ''qui _gr_list off'' False] \<and>
           Execute ''display 1'' False \<in> set mid)) \<and>
   run (E0\<lparr>streamout := True, interrupt := (\<lambda>n. n = 1)\<rparr>) ''sleep 100'' False True (InlineBool True) [] s0 =
     (None,
      \<lparr>trace = [ClearOutputBuffer, Execute ''qui _gr_list on'' False, PollerStart 1 None None None,
                Execute ''sleep 100'' True, PollerDone, SetBreak,
                Print (nl @ ''KeyboardInterrupt: --break--''), Execute ''qui _gr_list off'' False],
       outbuf = [], nexec = 3, ntemp = 0, rc2 = 0, gr_display_func = False\<rparr>) \<and>
   trace (snd (run (E0\<lparr>tempfile := (\<lambda>n. ''unit.do'')\<rparr>) ''mata:'' True False (InlineBool True)
                 [''  x = 1 '', ''y'', '' end  ''] s0)) =
     [ClearOutputBuffer, Execute ''qui _gr_list on'' False, Print ''. mata:'',
      DisplayLn ''{hline 49} mata (type {cmd:end} to exit) {hline}'', UserInput '': '',
      GetTempFile ''unit.do'', WriteFile ''unit.do'' (''mata:'' @ nl @ ''x = 1'' @ nl @ ''end''),
      Execute ''qui include unit.do'' False, GetOutput, UserInput '': '',
      GetTempFile ''unit.do'', WriteFile ''unit.do'' (''mata:'' @ nl @ ''y'' @ nl @ ''end''),
      Execute ''qui include unit.do'' False, GetOutput, UserInput '': '',
      DisplayLn ''{hline}'', Execute ''qui _gr_list off'' False]"
proof -
  have main: "resolve_inline E0 (InlineBool True) = Inr True \<and>
   splitlines ''display 1'' \<noteq> [] \<and>
   fst (run E0 ''display 1'' False False (InlineBool True) [] s0) = None \<and>
   (\<exists>mid. trace (snd (run E0 ''display 1'' False False (InlineBool True) [] s0)) =
           trace s0 @ [ClearOutputBuffer, Execute ''qui _gr_list on'' False] @ mid
             @ [Execute ''qui _gr_list off'' False] \<and>
           Execute ''display 1'' False \<in> set mid)"
  proof -
    have h1: "resolve_inline E0 (InlineBool True) = Inr True"
      by (simp add: resolve_inline_def)
    have h2: "splitlines ''display 1'' \<noteq> []"
      by (simp add: splitlines_def is_line_boundary_def)
    have h3: "fst (run E0 ''display 1'' False False (InlineBool True) [] s0) = None"
      by code_simp
    have sp: "splitlines ''display 1'' = [''display 1'']"
      by (simp add: splitlines_def is_line_boundary_def)
    have st: "strip ''display 1'' \<notin> {''mata'', ''mata:'', ''python'', ''python:''}"
      by (simp add: strip_def isspace_def)
    have c: "\<exists>mid. trace (snd (run E0 ''display 1'' False False (InlineBool True) [] s0)) =
             trace s0 @ [ClearOutputBuffer, Execute ''qui _gr_list on'' False] @ mid
               @ [Execute ''qui _gr_list off'' False] \<and>
             Execute ''display 1'' False \<in> set mid"
      using inline_toggled_on_always_off_on_return [OF h1 h2, of False False "[]" s0] h3 sp st
      by auto
    show ?thesis
      by (rule conjI [OF h1 conjI [OF h2 conjI [OF h3 c]]])
  qed
  have k1: "run (E0\<lparr>streamout := True, interrupt := (\<lambda>n. n = 1)\<rparr>) ''sleep 100'' False True (InlineBool True) [] s0 =
     (None,
      \<lparr>trace = [ClearOutputBuffer, Execute ''qui _gr_list on'' False, PollerStart 1 None None None,
                Execute ''sleep 100'' True, PollerDone, SetBreak,
                Print (nl @ ''KeyboardInterrupt: --break--''), Execute ''qui _gr_list off'' False],
       outbuf = [], nexec = 3, ntemp = 0, rc2 = 0, gr_display_func = False\<rparr>)"
    by code_simp
  have k2: "trace (snd (run (E0\<lparr>tempfile := (\<lambda>n. ''unit.do'')\<rparr>) ''mata:'' True False (InlineBool True)
                 [''  x = 1 '', ''y'', '' end  ''] s0)) =
     [ClearOutputBuffer, Execute ''qui _gr_list on'' False, Print ''. mata:'',
      DisplayLn ''{hline 49} mata (type {cmd:end} to exit) {hline}'', UserInput '': '',
      GetTempFile ''unit.do'', WriteFile ''unit.do'' (''mata:'' @ nl @ ''x = 1'' @ nl @ ''end''),
      Execute ''qui include unit.do'' False, GetOutput, UserInput '': '',
      GetTempFile ''unit.do'', WriteFile ''unit.do'' (''mata:'' @ nl @ ''y'' @ nl @ ''end''),
      Execute ''qui include unit.do'' False, GetOutput, UserInput '': '',
      DisplayLn ''{hline}'', Execute ''qui _gr_list off'' False]"
    by code_simp
  show ?thesis
    by (rule conjI [OF main conjI [OF k1 k2]])
qed

text \<open>The claim C7 as stated fails when the command raises: \<open>run\<close> ends with the capture
  still on.\<close>

theorem inline_left_on_after_error:
  "fst (run (E0\<lparr>engine := (\<lambda>n c. if c = ''display x'' then (111, [''x not found'']) else (0, []))\<rparr>)
          ''display x'' False False (InlineBool True) [] s0) = Some (SystemError ''x not found'') \<and>
   trace (snd (run (E0\<lparr>engine := (\<lambda>n c. if c = ''display x'' then (111, [''x not found'']) else (0, []))\<rparr>)
          ''display x'' False False (InlineBool True) [] s0)) =
     [ClearOutputBuffer, Execute ''qui _gr_list on'' False, Execute ''display x'' False, GetOutput]"
  by code_simp

section \<open>Cancellation and the poller\<close>

text \<open>
  C8, as the code has it. In streaming mode a worker starts the poller before the execute
  call. When the call returns, the return code is put on the queue and the poller is
  joined before the worker returns (and then marked done, unless \<open>join\<close> raised). When the
  call is interrupted, the poller is told to stop (\<open>done\<close>) instead.
\<close>

theorem poller_join_unless_interrupted:
  "streamout E \<Longrightarrow>
     trace (snd (stata_wrk1 E cmd echo s)) =
       trace s @ [PollerStart 1 None None None, Execute cmd echo]
         @ (if interrupt E (nexec s)
            then [PollerDone, SetBreak, Print (nl @ ''KeyboardInterrupt: --break--'')]
            else [QueuePut (fst (engine E (nexec s) cmd)), PollerJoin]
                 @ (if outputter_join E (Suc (nexec s)) = None then [PollerDone] else [])) \<and>
     trace (snd (stata_wrk2 E cmd real_cmd colon mode s)) =
       trace s @ [PollerStart 2 real_cmd (Some colon) (Some mode), Execute cmd False]
         @ (if interrupt E (nexec s)
            then [PollerDone, SetBreak, Print (nl @ ''KeyboardInterrupt: --break--'')]
            else [QueuePut (fst (engine E (nexec s) cmd)), PollerJoin]
                 @ (if outputter_join E (Suc (nexec s)) = None then [PollerDone] else []))"
  by (simp add: stata_wrk1_def stata_wrk2_def Let_def split_beta split: option.splits)

theorem poller_join_unless_interrupted_witness:
  "streamout (E0\<lparr>streamout := True\<rparr>) \<and>
   trace (snd (stata_wrk1 (E0\<lparr>streamout := True\<rparr>) ''display 1'' False s0)) =
     [PollerStart 1 None None None, Execute ''display 1'' False, QueuePut 0, PollerJoin, PollerDone]"
proof -
  have h: "streamout (E0\<lparr>streamout := True\<rparr>)"
    by simp
  show ?thesis
    using h poller_join_unless_interrupted [OF h, of "''display 1''" False s0]
    by (simp add: E0_def s0_def)
qed

text \<open>The claim C8 as stated fails on the KeyboardInterrupt path: the worker returns
  without a \<open>join\<close>.\<close>

theorem poller_not_joined_on_interrupt:
  "trace (snd (stata_wrk1 (E0\<lparr>streamout := True, interrupt := (\<lambda>n. True)\<rparr>) ''sleep 100'' False s0)) =
     [PollerStart 1 None None None, Execute ''sleep 100'' False, PollerDone, SetBreak,
      Print (nl @ ''KeyboardInterrupt: --break--'')] \<and>
   PollerJoin \<notin> set (trace (snd (stata_wrk1 (E0\<lparr>streamout := True, interrupt := (\<lambda>n. True)\<rparr>)
                                  ''sleep 100'' False s0)))"
  by (simp add: stata_wrk1_def E0_def s0_def Let_def split_beta)

text \<open>
  C9, as the code has it. When the user interrupts the execute call of a worker, in
  either streaming mode, the worker asks the engine to break exactly once, stops the
  poller if one was started (\<open>done\<close>), prints the cancellation notice and returns to its
  caller without raising; \<open>_stata_wrk2\<close> leaves the return code \<open>rc2\<close> as it was.
\<close>

theorem worker_interrupt_handled:
  "interrupt E (nexec s) \<Longrightarrow>
     fst (stata_wrk1 E cmd echo s) = None \<and>
     trace (snd (stata_wrk1 E cmd echo s)) =
       trace s @ (if streamout E then [PollerStart 1 None None None, Execute cmd echo, PollerDone]
                  else [Execute cmd echo])
         @ [SetBreak, Print (nl @ ''KeyboardInterrupt: --break--'')] \<and>
     fst (stata_wrk2 E cmd real_cmd colon mode s) = None \<and>
     trace (snd (stata_wrk2 E cmd real_cmd colon mode s)) =
       trace s @ (if streamout E
                  then [PollerStart 2 real_cmd (Some colon) (Some mode), Execute cmd False, PollerDone]
                  else [Execute cmd False])
         @ [SetBreak, Print (nl @ ''KeyboardInterrupt: --break--'')] \<and>
     rc2 (snd (stata_wrk2 E cmd real_cmd colon mode s)) = rc2 s"
  by (simp add: stata_wrk1_def stata_wrk2_def SetBreak_notice_def Let_def split_beta)

theorem worker_interrupt_handled_witness:
  "(interrupt (E0\<lparr>interrupt := (\<lambda>n. True)\<rparr>) (nexec s0) \<and>
   fst (stata_wrk2 (E0\<lparr>interrupt := (\<lambda>n. True)\<rparr>) ''include tmp'' None False 1 s0) = None \<and>
   trace (snd (stata_wrk2 (E0\<lparr>interrupt := (\<lambda>n. True)\<rparr>) ''include tmp'' None False 1 s0)) =
     [Execute ''include tmp'' False, SetBreak, Print (nl @ ''KeyboardInterrupt: --break--'')]) \<and>
   stata_wrk1 (E0\<lparr>streamout := True, interrupt := (\<lambda>n. True)\<rparr>) ''sleep 100'' True s0 =
     (None,
      \<lparr>trace = [PollerStart 1 None None None, Execute ''sleep 100'' True, PollerDone, SetBreak,
                Print (nl @ ''KeyboardInterrupt: --break--'')],
       outbuf = [], nexec = 1, ntemp = 0, rc2 = 0, gr_display_func = False\<rparr>) \<and>
   stata_wrk2 (E0\<lparr>streamout := True, interrupt := (\<lambda>n. True)\<rparr>) ''include tmp'' (Some ''x'') True 2
       (s0\<lparr>rc2 := 3000\<rparr>) =
     (None,
      \<lparr>trace = [PollerStart 2 (Some ''x'') (Some True) (Some 2), Execute ''include tmp'' False,
                PollerDone, SetBreak, Print (nl @ ''KeyboardInterrupt: --break--'')],
       outbuf = [], nexec = 1, ntemp = 0, rc2 = 3000, gr_display_func = False\<rparr>)"
proof -
  have main: "interrupt (E0\<lparr>interrupt := (\<lambda>n. True)\<rparr>) (nexec s0) \<and>
   fst (stata_wrk2 (E0\<lparr>interrupt := (\<lambda>n. True)\<rparr>) ''include tmp'' None False 1 s0) = None \<and>
   trace (snd (stata_wrk2 (E0\<lparr>interrupt := (\<lambda>n. True)\<rparr>) ''include tmp'' None False 1 s0)) =
     [Execute ''include tmp'' False, SetBreak, Print (nl @ ''KeyboardInterrupt: --break--'')]"
  proof -
    have h: "interrupt (E0\<lparr>interrupt := (\<lambda>n. True)\<rparr>) (nexec s0)"
      by (simp add: E0_def)
    show ?thesis
      using h worker_interrupt_handled [OF h, of "''include tmp''" False None False 1]
      by (simp add: E0_def s0_def)
  qed
  have k1: "stata_wrk1 (E0\<lparr>streamout := True, interrupt := (\<lambda>n. True)\<rparr>) ''sleep 100'' True s0 =
     (None,
      \<lparr>trace = [PollerStart 1 None None None, Execute ''sleep 100'' True, PollerDone, SetBreak,
                Print (nl @ ''KeyboardInterrupt: --break--'')],
       outbuf = [], nexec = 1, ntemp = 0, rc2 = 0, gr_display_func = False\<rparr>)"
    by code_simp
  have k2: "stata_wrk2 (E0\<lparr>streamout := True, interrupt := (\<lambda>n. True)\<rparr>) ''include tmp'' (Some ''x'') True 2
       (s0\<lparr>rc2 := 3000\<rparr>) =
     (None,
      \<lparr>trace = [PollerStart 2 (Some ''x'') (Some True) (Some 2), Execute ''include tmp'' False,
                PollerDone, SetBreak, Print (nl @ ''KeyboardInterrupt: --break--'')],
       outbuf = [], nexec = 1, ntemp = 0, rc2 = 3000, gr_display_func = False\<rparr>)"
    by code_simp
  show ?thesis
    by (rule conjI [OF main conjI [OF k1 k2]])
qed

text \<open>The claim C9 as stated fails for the execute calls \<open>run\<close> issues itself: an interrupt
  of the graph toggle leaves \<open>run\<close> as KeyboardInterrupt, with no break requested and no
  notice printed.\<close>

theorem toggle_interrupt_escapes:
  "run (E0\<lparr>interrupt := (\<lambda>n. n = 0)\<rparr>) ''sleep 100'' False False (InlineBool True) [] s0 =
     (Some KeyboardInterrupt,
      \<lparr>trace = [ClearOutputBuffer, Execute ''qui _gr_list on'' False],
       outbuf = [], nexec = 1, ntemp = 0, rc2 = 0, gr_display_func = False\<rparr>)"
  by code_simp

section \<open>How the sessions read their lines\<close>



end
